theory Spec2Isabelle
  imports Complex_Main
begin

section \<open>Python values, exceptions and the collaborators of the core\<close>

text \<open>
  The core handles values of type \<open>Any\<close>: configuration dictionaries loaded from
  YAML/JSON, the responses of the brokerage client and the \<open>Instrument\<close> named tuple of
  \<open>instrument_resolver.py\<close>. They are modelled by one datatype. A dictionary is an
  association list with string keys (\<open>map_of\<close> reads it), \<open>PObj\<close> is an object seen
  through its attributes, \<open>PInstrument\<close> is the named tuple
  \<open>Instrument(exchange, token, symbol, name, expiry, lot_size)\<close>, \<open>PEnum c m\<close> is
  member \<open>m\<close> of the client's enumeration \<open>c\<close>. Numbers (int and float) are read
  as the real they denote: the code only passes them on or compares them with 0.
\<close>

datatype pyval =
    PNone
  | PBool bool
  | PNum real
  | PStr string
  | PList "pyval list"
  | PDict "(string \<times> pyval) list"
  | PObj "(string \<times> pyval) list"
  | PInstrument pyval pyval pyval pyval pyval pyval
  | PEnum string string

text \<open>Truth value of an object, as \<open>not x\<close> and \<open>if x\<close> test it. A named tuple of six
  fields is a non-empty tuple and therefore true.\<close>

fun truthy :: "pyval \<Rightarrow> bool" where
  "truthy PNone = False"
| "truthy (PBool b) = b"
| "truthy (PNum x) = (x \<noteq> 0)"
| "truthy (PStr s) = (s \<noteq> [])"
| "truthy (PList xs) = (xs \<noteq> [])"
| "truthy (PDict d) = (d \<noteq> [])"
| "truthy (PObj a) = True"
| "truthy (PInstrument e t s n x l) = True"
| "truthy (PEnum c m) = True"

text \<open>\<open>d.get(k)\<close> and \<open>d.get(k, default)\<close> on a dictionary.\<close>

definition dict_get_default :: "(string \<times> pyval) list \<Rightarrow> string \<Rightarrow> pyval \<Rightarrow> pyval" where
  "dict_get_default d k dflt = (case map_of d k of None \<Rightarrow> dflt | Some v \<Rightarrow> v)"

definition dict_get :: "(string \<times> pyval) list \<Rightarrow> string \<Rightarrow> pyval" where
  "dict_get d k = dict_get_default d k PNone"

text \<open>\<open>d[k] = v\<close>: the key keeps its place when present, and is appended otherwise.\<close>

fun dict_set :: "(string \<times> pyval) list \<Rightarrow> string \<Rightarrow> pyval \<Rightarrow> (string \<times> pyval) list" where
  "dict_set [] k v = [(k, v)]"
| "dict_set ((k', v') # d) k v = (if k' = k then (k, v) # d else (k', v') # dict_set d k v)"

text \<open>Attribute access: \<open>getattr(x, a)\<close> is \<open>None\<close> here when Python raises
  AttributeError, and \<open>hasattr\<close> tells which.\<close>

fun py_getattr :: "pyval \<Rightarrow> string \<Rightarrow> pyval option" where
  "py_getattr (PObj attrs) a = map_of attrs a"
| "py_getattr (PInstrument e t s n x l) a =
     (if a = ''exchange'' then Some e
      else if a = ''token'' then Some t
      else if a = ''symbol'' then Some s
      else if a = ''name'' then Some n
      else if a = ''expiry'' then Some x
      else if a = ''lot_size'' then Some l
      else None)"
| "py_getattr _ a = None"

definition hasattr :: "pyval \<Rightarrow> string \<Rightarrow> bool" where
  "hasattr x a = (py_getattr x a \<noteq> None)"

text \<open>Exceptions: the class and the message \<open>str(e)\<close>. \<open>RemoteError\<close> stands for
  whatever exception class the brokerage client raises.\<close>

datatype exn_class =
    ValueError | KeyError | AttributeError | TypeError | RuntimeError
  | OrderExecutionError | BasketOrderExecutionError | RemoteError

datatype exn = Exn exn_class string

fun exn_str :: "exn \<Rightarrow> string" where
  "exn_str (Exn c m) = m"

text \<open>The KeyError of \<open>d[k]\<close> for a missing key \<open>k\<close>: \<open>str\<close> of it is the key in
  quotes.\<close>

definition key_error :: "string \<Rightarrow> exn" where
  "key_error k = Exn KeyError ([CHR 0x27] @ k @ [CHR 0x27])"

text \<open>The remote calls of the brokerage client that the core issues.\<close>

datatype call =
    GetInstrumentBySymbol string string
  | GetInstrumentForFno string string string bool pyval bool
  | PlaceOrder "(string \<times> pyval) list"
  | PlaceBasketOrder "pyval list"

text \<open>
  What the core takes from outside: Python's rendering of a value (\<open>str(v)\<close>, as in an
  f-string) and of its type (\<open>type(v)\<close>), the string methods \<open>strip\<close> and
  \<open>upper\<close>, the members of the client's enumerations
  (\<open>getattr(TransactionType, name)\<close>, \<open>None\<close> for AttributeError), and the brokerage
  itself: the response to a call may depend on all the calls issued before it.
\<close>

record env =
  py_str :: "pyval \<Rightarrow> string"
  py_type :: "pyval \<Rightarrow> string"
  py_strip :: "string \<Rightarrow> string"
  py_upper :: "string \<Rightarrow> string"
  enum_member :: "string \<Rightarrow> string \<Rightarrow> pyval option"
  remote :: "call list \<Rightarrow> call \<Rightarrow> exn + pyval"

section \<open>Order executor: normalising the response\<close>

text \<open>\<open>OrderExecutor._process_response\<close> (order_executor.py, lines 65-95). The result
  dictionary starts as a failure and is updated by the branch taken.\<close>

definition process_response :: "env \<Rightarrow> string \<Rightarrow> pyval \<Rightarrow> pyval" where
  "process_response E name response =
     (let result = [(''success'', PBool False), (''order_number'', PNone),
                    (''raw_response'', response), (''message'', PStr [])]
      in case response of
           PList xs \<Rightarrow>
             (if length xs = 0
              then PDict (dict_set result ''message''
                     (PStr ''Empty response - possible invalid token''))
              else PDict (dict_set (dict_set result ''success'' (PBool True)) ''message''
                     (PStr (''Response: '' @ py_str E response))))
         | PDict d \<Rightarrow>
             (if dict_get d ''stat'' = PStr ''Ok''
              then (let r1 = dict_set result ''success'' (PBool True);
                        r2 = dict_set r1 ''order_number'' (dict_get d ''NOrdNo'')
                    in PDict (dict_set r2 ''message''
                         (PStr (''Order placed: NOrdNo='' @ py_str E (dict_get r2 ''order_number'')))))
              else PDict (dict_set result ''message''
                     (PStr (''Order failed: '' @ py_str E response))))
         | _ \<Rightarrow>
             PDict (dict_set result ''message''
               (PStr (''Unexpected response type: '' @ py_type E response))))"

text \<open>Reading a field of a result dictionary.\<close>

fun field :: "pyval \<Rightarrow> string \<Rightarrow> pyval" where
  "field (PDict d) k = dict_get d k"
| "field _ k = PNone"

text \<open>The two successful shapes of a response.\<close>

fun ok_mapping :: "pyval \<Rightarrow> bool" where
  "ok_mapping (PDict d) = (dict_get d ''stat'' = PStr ''Ok'')"
| "ok_mapping _ = False"

fun nonempty_list :: "pyval \<Rightarrow> bool" where
  "nonempty_list (PList xs) = (xs \<noteq> [])"
| "nonempty_list _ = False"

text \<open>
  A concrete environment, used to evaluate the definitions on concrete inputs: strings
  are rendered as they are, \<open>strip\<close> and \<open>upper\<close> are the ones of ASCII text, every
  name is a member of every enumeration, and the brokerage answers every call with a
  one-element list.
\<close>

definition is_space :: "char \<Rightarrow> bool" where
  "is_space c = (c \<in> set [CHR '' '', CHR 0x09, CHR 0x0A, CHR 0x0B, CHR 0x0C, CHR 0x0D])"

definition ascii_strip :: "string \<Rightarrow> string" where
  "ascii_strip s = rev (dropWhile is_space (rev (dropWhile is_space s)))"

definition ascii_upper :: "string \<Rightarrow> string" where
  "ascii_upper s =
     map (\<lambda>c. case map_of (zip ''abcdefghijklmnopqrstuvwxyz'' ''ABCDEFGHIJKLMNOPQRSTUVWXYZ'') c of
                None \<Rightarrow> c | Some u \<Rightarrow> u) s"

definition plain_str :: "pyval \<Rightarrow> string" where
  "plain_str v = (case v of PStr s \<Rightarrow> s | _ \<Rightarrow> ''<value>'')"

definition plain_type :: "pyval \<Rightarrow> string" where
  "plain_type v = ''<class>''"

definition every_member :: "string \<Rightarrow> string \<Rightarrow> pyval option" where
  "every_member c m = Some (PEnum c m)"

definition answer_list :: "call list \<Rightarrow> call \<Rightarrow> exn + pyval" where
  "answer_list h c = Inr (PList [PNone])"

definition plain_env :: env where
  "plain_env = \<lparr> py_str = plain_str, py_type = plain_type,
                 py_strip = ascii_strip, py_upper = ascii_upper,
                 enum_member = every_member, remote = answer_list \<rparr>"

section \<open>The bounded worker pool\<close>

text \<open>
  \<open>ThreadPoolExecutor(max_workers=n)\<close> of Python's \<open>concurrent.futures\<close> refuses a
  pool without workers: its constructor raises ValueError when \<open>n \<le> 0\<close>. Every task
  submitted to a pool runs to its end, whatever the other tasks do; \<open>future.result()\<close>
  then returns what the task returned or raises what it raised (\<open>Inl\<close>); an
  exception is an instance of \<open>Exception\<close>, the class the collection loops catch.
  \<open>as_completed\<close> yields the futures in the order in which they finish, which the
  callers cannot choose: it is a parameter of the model, a list of the futures' indices
  (the i-th future is the one submitted for the i-th entry).
\<close>

definition thread_pool :: "int \<Rightarrow> exn + unit" where
  "thread_pool max_workers =
     (if max_workers \<le> 0 then Inl (Exn ValueError ''max_workers must be greater than 0'')
      else Inr ())"

section \<open>Threaded orchestrator: fan-out and collection\<close>

text \<open>The entry recorded for an account whose task raised
  (threaded_orchestrator.py, lines 42-44 and 145-147).\<close>

definition failure_entry :: "exn \<Rightarrow> pyval" where
  "failure_entry e = PDict [(''success'', PBool False), (''error'', PStr (exn_str e))]"

text \<open>The collection loop \<open>for future in as_completed(future_to_account)\<close>, shared by
  \<open>execute_on_all_accounts\<close> and \<open>execute_basket_on_all_accounts\<close>.\<close>

fun collect_results ::
  "string list \<Rightarrow> (nat \<Rightarrow> exn + pyval) \<Rightarrow> nat list \<Rightarrow> (string \<rightharpoonup> pyval) \<Rightarrow> (string \<rightharpoonup> pyval)"
where
  "collect_results future_to_account future_result [] results = results"
| "collect_results future_to_account future_result (i # rest) results =
     (let account_name = future_to_account ! i
      in collect_results future_to_account future_result rest
           (case future_result i of
              Inr r \<Rightarrow> results(account_name \<mapsto> r)
            | Inl e \<Rightarrow> results(account_name \<mapsto> failure_entry e)))"

text \<open>
  \<open>ThreadedOrchestrator.execute_on_all_accounts\<close> (lines 13-46). \<open>sessions\<close> is the
  dictionary of sessions as the list of its items; \<open>task_result i\<close> is the outcome of
  the task \<open>_execute_on_single_account\<close> submitted for the i-th item, \<open>completed\<close> the
  order of completion.
\<close>

definition execute_on_all_accounts ::
  "int \<Rightarrow> (string \<times> 's) list \<Rightarrow> (nat \<Rightarrow> exn + pyval) \<Rightarrow> nat list \<Rightarrow> exn + (string \<rightharpoonup> pyval)"
where
  "execute_on_all_accounts max_workers sessions task_result completed =
     (case thread_pool max_workers of
        Inl e \<Rightarrow> Inl e
      | Inr _ \<Rightarrow>
          Inr (collect_results (map fst sessions) task_result completed Map.empty))"

text \<open>\<open>ThreadedOrchestrator.execute_basket_on_all_accounts\<close> (lines 120-149): the same
  pool and the same collection, for the tasks \<open>_execute_baskets_on_single_account\<close>.\<close>

definition execute_basket_on_all_accounts ::
  "int \<Rightarrow> (string \<times> 's) list \<Rightarrow> (nat \<Rightarrow> exn + pyval) \<Rightarrow> nat list \<Rightarrow> exn + (string \<rightharpoonup> pyval)"
where
  "execute_basket_on_all_accounts max_workers sessions basket_task_result completed =
     (case thread_pool max_workers of
        Inl e \<Rightarrow> Inl e
      | Inr _ \<Rightarrow>
          Inr (collect_results (map fst sessions) basket_task_result completed Map.empty))"

text \<open>What the collection records for the i-th future.\<close>

definition entry_of :: "(nat \<Rightarrow> exn + pyval) \<Rightarrow> nat \<Rightarrow> pyval" where
  "entry_of future_result i =
     (case future_result i of Inr r \<Rightarrow> r | Inl e \<Rightarrow> failure_entry e)"

text \<open>Concrete runs: three accounts of which the second raises, finishing in the order
  third, first, second; and a run without tasks.\<close>

definition three_sessions :: "(string \<times> unit) list" where
  "three_sessions = [(''A'', ()), (''B'', ()), (''C'', ())]"

definition three_results :: "nat \<Rightarrow> exn + pyval" where
  "three_results i =
     (if i = 1 then Inl (Exn KeyError ''instrument'')
      else Inr (PDict [(''individual_orders'', PList []), (''basket_orders'', PList [])]))"

definition no_results :: "nat \<Rightarrow> exn + pyval" where
  "no_results i = Inr PNone"

definition no_sessions :: "(string \<times> unit) list" where
  "no_sessions = []"

section \<open>Account manager\<close>

text \<open>
  An account descriptor is a dictionary with the keys \<open>account_name\<close>, \<open>user_id\<close>,
  \<open>api_key\<close> and \<open>enabled\<close>. Each key may be absent (\<open>None\<close> here): the first three
  are read with \<open>acc[...]\<close>, which raises KeyError for an absent key; \<open>enabled\<close> is read
  with \<open>acc.get("enabled", True)\<close>. The first three values are strings, as
  \<open>load_master_excel\<close> writes them.
\<close>

record account_config =
  account_name :: "string option"
  user_id :: "string option"
  api_key :: "string option"
  enabled :: "pyval option"

text \<open>\<open>acc[k]\<close> on a descriptor, for the value \<open>v\<close> it holds under the key \<open>k\<close>.\<close>

definition config_index :: "string \<Rightarrow> string option \<Rightarrow> exn + string" where
  "config_index k v = (case v of None \<Rightarrow> Inl (key_error k) | Some s \<Rightarrow> Inr s)"

text \<open>\<open>AccountSession\<close>: the connection and the components built on it. The resolver,
  the executor and the basket executor are constructed from the connection alone.\<close>

record 'c account_session =
  session_name :: string
  session_user_id :: string
  session_api_key :: string
  alice :: 'c

text \<open>
  The authentication collaborator (auth.py): \<open>Authenticator()\<close> raises ValueError
  unless the environment holds USER_ID and API_KEY; \<open>login\<close> opens the connection for
  the overridden credentials or raises; \<open>download_contracts\<close> raises RuntimeError
  when \<open>login\<close> left no connection, and otherwise swallows every failure of a download.
\<close>

record 'c authenticator =
  env_credentials :: bool
  login :: "string \<Rightarrow> string \<Rightarrow> exn + 'c"

text \<open>\<open>AccountManager._initialize_single\<close> (account_manager.py, lines 64-88). The three
  keys are read first, in the order of the arguments of \<open>AccountSession(...)\<close>.\<close>

definition initialize_single :: "'c authenticator \<Rightarrow> account_config \<Rightarrow> exn + 'c account_session" where
  "initialize_single auth acc =
     (case config_index ''account_name'' (account_name acc) of
        Inl e \<Rightarrow> Inl e
      | Inr nm \<Rightarrow>
     (case config_index ''user_id'' (user_id acc) of
        Inl e \<Rightarrow> Inl e
      | Inr uid \<Rightarrow>
     (case config_index ''api_key'' (api_key acc) of
        Inl e \<Rightarrow> Inl e
      | Inr akey \<Rightarrow>
          if \<not> env_credentials auth
          then Inl (Exn ValueError ''USER_ID and API_KEY must be set in .env file'')
          else (case login auth uid akey of
                  Inl e \<Rightarrow> Inl e
                | Inr conn \<Rightarrow>
                    Inr \<lparr> session_name = nm, session_user_id = uid,
                          session_api_key = akey, alice = conn \<rparr>))))"

text \<open>\<open>acc.get("enabled", True)\<close> as a condition.\<close>

definition is_enabled :: "account_config \<Rightarrow> bool" where
  "is_enabled acc = (case enabled acc of None \<Rightarrow> True | Some v \<Rightarrow> truthy v)"

text \<open>
  The dictionary comprehension of \<open>initialize_all\<close> (lines 48-51), run by the calling
  thread: for each enabled account, in order, the task is submitted and then
  \<open>acc["account_name"]\<close> is read. The read is outside every \<open>try\<close>: for the first
  descriptor without that key the KeyError leaves the comprehension, and with it
  \<open>initialize_all\<close>. The result lists the names, the i-th being that of the i-th future.
\<close>

fun future_names :: "account_config list \<Rightarrow> exn + string list" where
  "future_names [] = Inr []"
| "future_names (acc # rest) =
     (case config_index ''account_name'' (account_name acc) of
        Inl e \<Rightarrow> Inl e
      | Inr nm \<Rightarrow>
          (case future_names rest of
             Inl e \<Rightarrow> Inl e
           | Inr names \<Rightarrow> Inr (nm # names)))"

text \<open>The collection loop of \<open>initialize_all\<close> (lines 53-60): a session is stored under
  the account's name, a failure is logged and nothing is stored.\<close>

fun collect_sessions ::
  "string list \<Rightarrow> (nat \<Rightarrow> exn + 's) \<Rightarrow> nat list \<Rightarrow> (string \<rightharpoonup> 's) \<Rightarrow> (string \<rightharpoonup> 's)"
where
  "collect_sessions future_to_account future_result [] sessions = sessions"
| "collect_sessions future_to_account future_result (i # rest) sessions =
     (let account_name = future_to_account ! i
      in collect_sessions future_to_account future_result rest
           (case future_result i of
              Inr session \<Rightarrow> sessions(account_name \<mapsto> session)
            | Inl e \<Rightarrow> sessions))"

text \<open>
  \<open>AccountManager.initialize_all\<close> (lines 37-62), on a manager whose \<open>self.sessions\<close>
  holds \<open>sessions\<close> (empty after \<open>__init__\<close>). The pool is built before the
  comprehension runs. The i-th future is the task \<open>_initialize_single\<close> of the i-th
  enabled account.
\<close>

definition initialize_all ::
  "'c authenticator \<Rightarrow> account_config list \<Rightarrow> (string \<rightharpoonup> 'c account_session) \<Rightarrow> nat list
     \<Rightarrow> exn + (string \<rightharpoonup> 'c account_session)"
where
  "initialize_all auth accounts_config sessions completed =
     (let enabled_accounts = filter is_enabled accounts_config
      in case thread_pool (min 5 (int (length enabled_accounts))) of
           Inl e \<Rightarrow> Inl e
         | Inr _ \<Rightarrow>
             (case future_names enabled_accounts of
                Inl e \<Rightarrow> Inl e
              | Inr future_to_account \<Rightarrow>
                  Inr (collect_sessions future_to_account
                         (\<lambda>i. initialize_single auth (enabled_accounts ! i)) completed sessions)))"

text \<open>\<open>self.sessions\<close> as \<open>AccountManager.__init__\<close> leaves it.\<close>

definition initial_sessions :: "string \<rightharpoonup> 'c account_session" where
  "initial_sessions = Map.empty"




definition acc_D :: account_config where
  "acc_D = \<lparr> account_name = Some ''D'', user_id = Some ''u4'', api_key = Some ''k4'',
             enabled = Some (PBool False) \<rparr>"


definition reject_u2 :: "string authenticator" where
  "reject_u2 = \<lparr> env_credentials = True,
                 login = (\<lambda>u k. if u = ''u2'' then Inl (Exn RemoteError ''invalid credentials'')
                                else Inr (''session-'' @ u)) \<rparr>"

section \<open>The state of one account session\<close>

text \<open>
  \<open>session.resolver.instruments\<close> is no attribute of a new resolver: main.py assigns it,
  and assigns the very dictionary it later passes to the orchestrator as \<open>instruments\<close>.
  So the attribute is absent, or the shared table itself, or a dictionary of its own.
\<close>

datatype table_ref = Unset | Shared | Own "string \<rightharpoonup> pyval"

datatype level = DEBUG | INFO | WARNING | ERROR

datatype event = Log level string

text \<open>
  The state an account's task works on: the resolver's cache, the resolver's
  \<open>instruments\<close> attribute, the \<open>instruments\<close> table handed to the orchestrator, the
  remote calls issued so far (oldest first) and the records of the task's own logger
  (the pictographs that open some messages are left out).
\<close>

record state =
  cache :: "string \<rightharpoonup> pyval"
  resolver_instruments :: table_ref
  instruments :: "string \<rightharpoonup> pyval"
  calls :: "call list"
  log :: "event list"

definition issue :: "env \<Rightarrow> call \<Rightarrow> state \<Rightarrow> (exn + pyval) \<times> state" where
  "issue E c st = (remote E (calls st) c, st\<lparr>calls := calls st @ [c]\<rparr>)"

definition logger :: "level \<Rightarrow> string \<Rightarrow> state \<Rightarrow> state" where
  "logger lv m st = st\<lparr>log := log st @ [Log lv m]\<rparr>"

section \<open>Instrument resolver\<close>

text \<open>\<open>getattr(x, a, default)\<close>.\<close>

definition getattr_default :: "pyval \<Rightarrow> string \<Rightarrow> pyval \<Rightarrow> pyval" where
  "getattr_default x a dflt = (case py_getattr x a of None \<Rightarrow> dflt | Some v \<Rightarrow> v)"

definition attribute_error :: "string \<Rightarrow> exn" where
  "attribute_error a = Exn AttributeError (''object has no attribute '' @ a)"

text \<open>
  \<open>InstrumentResolver._normalize_instrument\<close> (instrument_resolver.py, lines 80-110):
  an object with an \<open>exchange\<close> attribute is read through its attributes (\<open>token\<close>
  and \<open>symbol\<close> must be there), a mapping through \<open>get\<close> with defaults, anything else
  is refused.
\<close>

definition normalize_instrument :: "env \<Rightarrow> pyval \<Rightarrow> string \<Rightarrow> string \<Rightarrow> exn + pyval" where
  "normalize_instrument E result exchange symbol =
     (case py_getattr result ''exchange'' of
        Some ex \<Rightarrow>
          (case py_getattr result ''token'' of
             None \<Rightarrow> Inl (attribute_error ''token'')
           | Some tok \<Rightarrow>
               (case py_getattr result ''symbol'' of
                  None \<Rightarrow> Inl (attribute_error ''symbol'')
                | Some smb \<Rightarrow>
                    Inr (PInstrument ex tok smb
                           (getattr_default result ''name'' (PStr []))
                           (getattr_default result ''expiry'' (PStr []))
                           (getattr_default result ''lot_size'' (PNum 1)))))
      | None \<Rightarrow>
          (case result of
             PDict d \<Rightarrow>
               Inr (PInstrument
                      (dict_get_default d ''exchange'' (PStr exchange))
                      (dict_get_default d ''token'' (PStr []))
                      (dict_get_default d ''symbol'' (PStr symbol))
                      (dict_get_default d ''name'' (PStr []))
                      (dict_get_default d ''expiry'' (PStr []))
                      (dict_get_default d ''lot_size'' (PNum 1)))
           | _ \<Rightarrow> Inl (Exn ValueError (''Unsupported instrument format: '' @ py_type E result))))"

text \<open>
  The body shared by \<open>resolve_equity\<close> and \<open>resolve_fno\<close> after the key is computed:
  a cached key is answered from the cache; otherwise the lookup is issued, and its
  normalised result is cached and returned; any exception of the lookup or of the
  normalisation is caught and \<open>None\<close> is returned.
\<close>

definition resolve_with :: "env \<Rightarrow> string \<Rightarrow> call \<Rightarrow> string \<Rightarrow> string \<Rightarrow> state \<Rightarrow> pyval \<times> state" where
  "resolve_with E key lookup exchange symbol st =
     (case cache st key of
        Some instrument \<Rightarrow> (instrument, st)
      | None \<Rightarrow>
          (case issue E lookup st of
             (Inl e, st1) \<Rightarrow> (PNone, st1)
           | (Inr result, st1) \<Rightarrow>
               (case normalize_instrument E result exchange symbol of
                  Inl e \<Rightarrow> (PNone, st1)
                | Inr instrument \<Rightarrow>
                    (instrument, st1\<lparr>cache := (cache st1)(key \<mapsto> instrument)\<rparr>))))"

text \<open>\<open>InstrumentResolver.resolve_equity\<close> (lines 14-29), key \<open>f"{exchange}_{symbol}"\<close>.\<close>

definition equity_key :: "string \<Rightarrow> string \<Rightarrow> string" where
  "equity_key exchange symbol = exchange @ ''_'' @ symbol"

definition resolve_equity :: "env \<Rightarrow> string \<Rightarrow> string \<Rightarrow> state \<Rightarrow> pyval \<times> state" where
  "resolve_equity E exchange symbol st =
     resolve_with E (equity_key exchange symbol) (GetInstrumentBySymbol exchange symbol)
       exchange symbol st"

text \<open>\<open>InstrumentResolver.resolve_fno\<close> (lines 31-69), key
  \<open>f"{exchange}_{symbol}_{expiry_date}_{opt_type}"\<close>.\<close>

definition fno_key :: "env \<Rightarrow> string \<Rightarrow> string \<Rightarrow> string \<Rightarrow> bool \<Rightarrow> pyval \<Rightarrow> bool \<Rightarrow> string" where
  "fno_key E exchange symbol expiry_date is_fut strike is_ce =
     (let opt_type = (if is_fut then ''FUT''
                      else (if is_ce then ''CE'' else ''PE'') @ py_str E strike)
      in exchange @ ''_'' @ symbol @ ''_'' @ expiry_date @ ''_'' @ opt_type)"

definition resolve_fno ::
  "env \<Rightarrow> string \<Rightarrow> string \<Rightarrow> string \<Rightarrow> bool \<Rightarrow> pyval \<Rightarrow> bool \<Rightarrow> state \<Rightarrow> pyval \<times> state"
where
  "resolve_fno E exchange symbol expiry_date is_fut strike is_ce st =
     resolve_with E (fno_key E exchange symbol expiry_date is_fut strike is_ce)
       (GetInstrumentForFno exchange symbol expiry_date is_fut strike is_ce)
       exchange symbol st"

text \<open>A new session: nothing cached, nothing issued, the table empty.\<close>

definition new_state :: state where
  "new_state = \<lparr> cache = Map.empty, resolver_instruments = Shared,
                 instruments = Map.empty, calls = [], log = [] \<rparr>"

text \<open>A brokerage whose every call raises, and one that knows the symbol INFY only.\<close>

definition always_raises :: "call list \<Rightarrow> call \<Rightarrow> exn + pyval" where
  "always_raises h c = Inl (Exn RemoteError ''connection refused'')"

definition down_env :: env where
  "down_env = plain_env \<lparr> remote := always_raises \<rparr>"

definition knows_infy :: "call list \<Rightarrow> call \<Rightarrow> exn + pyval" where
  "knows_infy h c =
     (if c = GetInstrumentBySymbol ''NSE'' ''INFY''
      then Inr (PInstrument (PStr ''NSE'') (PNum 1594) (PStr ''INFY'') (PStr ''INFOSYS'')
                  (PStr []) (PNum 1))
      else case c of
             GetInstrumentBySymbol ex smb \<Rightarrow>
               Inr (PDict [(''stat'', PStr ''Not_ok''), (''emsg'', PStr ''not available'')])
           | GetInstrumentForFno ex smb x f k ce \<Rightarrow>
               Inr (PDict [(''stat'', PStr ''Not_ok''), (''emsg'', PStr ''not available'')])
           | _ \<Rightarrow> Inr (PDict [(''stat'', PStr ''Ok''), (''NOrdNo'', PStr ''2301'')]))"

definition infy_env :: env where
  "infy_env = plain_env \<lparr> remote := knows_infy \<rparr>"

section \<open>Order executor: placing an order\<close>

text \<open>The keyword arguments of \<open>OrderExecutor.place_order\<close>.\<close>

record order_args =
  name :: pyval
  transaction_type :: pyval
  instrument :: pyval
  quantity :: pyval
  order_type :: pyval
  product_type :: pyval
  price :: pyval
  trigger_price :: pyval
  stop_loss :: pyval
  square_off :: pyval
  trailing_sl :: pyval
  is_amo :: pyval
  order_tag :: pyval

text \<open>\<open>getattr(TransactionType, transaction_type)\<close> and its two siblings: the name must
  be a string and a member of the enumeration.\<close>

definition enum_lookup :: "env \<Rightarrow> string \<Rightarrow> pyval \<Rightarrow> exn + pyval" where
  "enum_lookup E cls v =
     (case v of
        PStr s \<Rightarrow>
          (case enum_member E cls s of
             None \<Rightarrow> Inl (attribute_error s)
           | Some m \<Rightarrow> Inr m)
      | _ \<Rightarrow> Inl (Exn TypeError ''attribute name must be string''))"

text \<open>The dictionary \<open>order_params\<close> (order_executor.py, lines 42-57): all twelve
  entries, then the entries whose value is \<open>None\<close> removed.\<close>

definition order_params :: "pyval \<Rightarrow> pyval \<Rightarrow> pyval \<Rightarrow> order_args \<Rightarrow> (string \<times> pyval) list" where
  "order_params txn_enum order_enum product_enum a =
     filter (\<lambda>(k, v). v \<noteq> PNone)
       [(''transaction_type'', txn_enum),
        (''instrument'', instrument a),
        (''quantity'', quantity a),
        (''order_type'', order_enum),
        (''product_type'', product_enum),
        (''price'', price a),
        (''trigger_price'', trigger_price a),
        (''stop_loss'', stop_loss a),
        (''square_off'', square_off a),
        (''trailing_sl'', trailing_sl a),
        (''is_amo'', is_amo a),
        (''order_tag'', order_tag a)]"

text \<open>\<open>OrderExecutor.place_order\<close> (lines 14-63). The check of the instrument and the
  three enumeration lookups stand before the \<open>try\<close>; an exception of the remote call
  is wrapped in \<open>OrderExecutionError\<close>.\<close>

definition place_order :: "env \<Rightarrow> order_args \<Rightarrow> state \<Rightarrow> (exn + pyval) \<times> state" where
  "place_order E a st =
     (if \<not> truthy (instrument a) \<or> \<not> hasattr (instrument a) ''token''
      then (Inl (Exn OrderExecutionError (''Invalid instrument for '' @ py_str E (name a))), st)
      else
        (case enum_lookup E ''TransactionType'' (transaction_type a) of
           Inl e \<Rightarrow> (Inl e, st)
         | Inr txn_enum \<Rightarrow>
        (case enum_lookup E ''OrderType'' (order_type a) of
           Inl e \<Rightarrow> (Inl e, st)
         | Inr order_enum \<Rightarrow>
        (case enum_lookup E ''ProductType'' (product_type a) of
           Inl e \<Rightarrow> (Inl e, st)
         | Inr product_enum \<Rightarrow>
            (case issue E (PlaceOrder (order_params txn_enum order_enum product_enum a)) st of
               (Inl e, st1) \<Rightarrow>
                 (Inl (Exn OrderExecutionError (''API Error: '' @ exn_str e)), st1)
             | (Inr response, st1) \<Rightarrow>
                 (Inr (process_response E (py_str E (name a)) response), st1))))))"

text \<open>Concrete orders: a market order with every optional argument at its default, on a
  resolved instrument, on an instrument record whose token is empty, and on no
  instrument.\<close>

definition infy :: pyval where
  "infy = PInstrument (PStr ''NSE'') (PNum 1594) (PStr ''INFY'') (PStr ''INFOSYS'') (PStr []) (PNum 1)"

definition empty_token :: pyval where
  "empty_token = PInstrument (PStr ''NSE'') (PStr []) (PStr ''XYZ'') (PStr []) (PStr []) (PNum 1)"

definition market_order :: "pyval \<Rightarrow> order_args" where
  "market_order i =
     \<lparr> name = PStr ''o1'', transaction_type = PStr ''Buy'', instrument = i,
       quantity = PNum 1, order_type = PStr ''Market'', product_type = PStr ''Intraday'',
       price = PNum 0, trigger_price = PNone, stop_loss = PNone, square_off = PNone,
       trailing_sl = PNone, is_amo = PBool False, order_tag = PStr [] \<rparr>"

text \<open>The state of a new session after INFY has been resolved once.\<close>

definition infy_cached :: state where
  "infy_cached = new_state \<lparr> cache := [equity_key ''NSE'' ''INFY'' \<mapsto> infy],
                             calls := [GetInstrumentBySymbol ''NSE'' ''INFY''] \<rparr>"

text \<open>How a value of \<open>order_params\<close> shows in the payload: not at all when it is
  \<open>None\<close>, as it is otherwise.\<close>

definition included :: "pyval \<Rightarrow> pyval option" where
  "included v = (if v = PNone then None else Some v)"

section \<open>Reading configuration dictionaries\<close>

text \<open>\<open>d[k]\<close> raises KeyError for a missing key.\<close>

definition dict_index :: "(string \<times> pyval) list \<Rightarrow> string \<Rightarrow> exn + pyval" where
  "dict_index d k = (case map_of d k of None \<Rightarrow> Inl (key_error k) | Some v \<Rightarrow> Inr v)"

text \<open>Sequencing of steps that may raise.\<close>

definition bind_exn :: "exn + 'a \<Rightarrow> ('a \<Rightarrow> exn + 'b) \<Rightarrow> exn + 'b" where
  "bind_exn r f = (case r of Inl e \<Rightarrow> Inl e | Inr v \<Rightarrow> f v)"

text \<open>\<open>str(order_data["instrument"]).strip().upper()\<close>.\<close>

definition instrument_key :: "env \<Rightarrow> pyval \<Rightarrow> string" where
  "instrument_key E v = py_upper E (py_strip E (py_str E v))"

text \<open>The test \<open>not instrument or not instrument.token\<close>; its negation is the test
  \<open>instrument and instrument.token\<close>. A true value without a \<open>token\<close> attribute raises
  AttributeError.\<close>

definition unresolved :: "pyval \<Rightarrow> exn + bool" where
  "unresolved i =
     (if \<not> truthy i then Inr True
      else case py_getattr i ''token'' of
             None \<Rightarrow> Inl (attribute_error ''token'')
           | Some t \<Rightarrow> Inr (\<not> truthy t))"

text \<open>\<open>instruments.get(key)\<close> on the table handed to the orchestrator.\<close>

definition shared_get :: "state \<Rightarrow> string \<Rightarrow> pyval" where
  "shared_get st key = (case instruments st key of None \<Rightarrow> PNone | Some v \<Rightarrow> v)"

text \<open>\<open>resolver.instruments.get(key)\<close> and \<open>resolver.instruments[key] = v\<close>: both
  raise AttributeError when the attribute was never assigned.\<close>

definition table_get :: "state \<Rightarrow> string \<Rightarrow> exn + pyval" where
  "table_get st key =
     (case resolver_instruments st of
        Unset \<Rightarrow> Inl (attribute_error ''instruments'')
      | Shared \<Rightarrow> Inr (shared_get st key)
      | Own m \<Rightarrow> Inr (case m key of None \<Rightarrow> PNone | Some v \<Rightarrow> v))"

definition table_set :: "state \<Rightarrow> string \<Rightarrow> pyval \<Rightarrow> exn + state" where
  "table_set st key v =
     (case resolver_instruments st of
        Unset \<Rightarrow> Inl (attribute_error ''instruments'')
      | Shared \<Rightarrow> Inr (st\<lparr>instruments := (instruments st)(key \<mapsto> v)\<rparr>)
      | Own m \<Rightarrow> Inr (st\<lparr>resolver_instruments := Own (m(key \<mapsto> v))\<rparr>))"

section \<open>Basket order executor\<close>

text \<open>The comparison \<open>x > 0\<close>: defined on numbers and booleans, TypeError otherwise.\<close>

definition greater_zero :: "pyval \<Rightarrow> exn + bool" where
  "greater_zero v =
     (case v of
        PNum x \<Rightarrow> Inr (x > 0)
      | PBool b \<Rightarrow> Inr b
      | _ \<Rightarrow> Inl (Exn TypeError ''> not supported with int''))"

text \<open>
  The second half of \<open>_build_order_dict\<close> (basket_order_executor.py, lines 80-110):
  the six entries of the dictionary literal, evaluated in the order written, then the
  optional entries.
\<close>

definition finish_order_dict :: "env \<Rightarrow> (string \<times> pyval) list \<Rightarrow> pyval \<Rightarrow> exn + pyval" where
  "finish_order_dict E order_data inst =
     bind_exn (dict_index order_data ''order_type'') (\<lambda>ot.
     bind_exn (enum_lookup E ''OrderType'' ot) (\<lambda>order_enum.
     bind_exn (dict_index order_data ''quantity'') (\<lambda>qty.
     bind_exn (dict_index order_data ''transaction_type'') (\<lambda>tt.
     bind_exn (enum_lookup E ''TransactionType'' tt) (\<lambda>txn_enum.
     bind_exn (dict_index order_data ''product_type'') (\<lambda>pt.
     bind_exn (enum_lookup E ''ProductType'' pt) (\<lambda>product_enum.
     bind_exn (greater_zero (dict_get_default order_data ''price'' (PNum 0))) (\<lambda>has_price.
       (let d0 = [(''instrument'', inst),
                  (''order_type'', order_enum),
                  (''quantity'', qty),
                  (''transaction_type'', txn_enum),
                  (''product_type'', product_enum),
                  (''order_tag'', dict_get_default order_data ''order_tag'' (PStr []))];
            d1 = (if has_price then dict_set d0 ''price'' (dict_get order_data ''price'') else d0);
            d2 = (if dict_get order_data ''trigger_price'' \<noteq> PNone
                  then dict_set d1 ''trigger_price'' (dict_get order_data ''trigger_price'') else d1);
            d3 = (if dict_get order_data ''stop_loss'' \<noteq> PNone
                  then dict_set d2 ''stop_loss'' (dict_get order_data ''stop_loss'') else d2);
            d4 = (if dict_get order_data ''square_off'' \<noteq> PNone
                  then dict_set d3 ''square_off'' (dict_get order_data ''square_off'') else d3);
            d5 = (if dict_get order_data ''trailing_sl'' \<noteq> PNone
                  then dict_set d4 ''trailing_sl'' (dict_get order_data ''trailing_sl'') else d4);
            d6 = (if truthy (dict_get_default order_data ''is_amo'' (PBool False))
                  then dict_set d5 ''is_amo'' (PBool True) else d5)
        in Inr (PDict d6))))))))))"

text \<open>
  \<open>BasketOrderExecutor._build_order_dict\<close> (lines 56-110), first half: the instrument
  is read from the resolver's table; an unresolved key without an underscore goes
  through \<open>resolve_equity("NSE", key)\<close> and, when that gives a token, into the table;
  an unresolved key with an underscore raises ValueError. A leg that is no dictionary
  cannot be subscripted with a string.
\<close>

definition build_order_dict :: "env \<Rightarrow> pyval \<Rightarrow> state \<Rightarrow> (exn + pyval) \<times> state" where
  "build_order_dict E leg st =
     (case leg of
        PDict order_data \<Rightarrow>
          (case dict_index order_data ''instrument'' of
             Inl e \<Rightarrow> (Inl e, st)
           | Inr iv \<Rightarrow>
               (let key = instrument_key E iv
                in case table_get st key of
                     Inl e \<Rightarrow> (Inl e, st)
                   | Inr inst \<Rightarrow>
                       (case unresolved inst of
                          Inl e \<Rightarrow> (Inl e, st)
                        | Inr False \<Rightarrow> (finish_order_dict E order_data inst, st)
                        | Inr True \<Rightarrow>
                            (if CHR ''_'' \<notin> set key
                             then (case resolve_equity E ''NSE'' key st of
                                     (resolved, st1) \<Rightarrow>
                                       (case unresolved resolved of
                                          Inl e \<Rightarrow> (Inl e, st1)
                                        | Inr True \<Rightarrow>
                                            (Inl (Exn ValueError
                                               (''Invalid instrument: '' @ key @
                                                '' (dynamic resolution failed)'')), st1)
                                        | Inr False \<Rightarrow>
                                            (case table_set st1 key resolved of
                                               Inl e \<Rightarrow> (Inl e, st1)
                                             | Inr st2 \<Rightarrow>
                                                 (finish_order_dict E order_data resolved, st2))))
                             else (Inl (Exn ValueError
                                     (''Invalid F&O instrument: '' @ key @
                                      ''. Must be pre-defined.'')), st)))))
      | _ \<Rightarrow> (Inl (Exn TypeError ''indices must be integers''), st))"

text \<open>The loop over the legs (lines 39-46): the first leg whose build raises ends it.\<close>

fun build_legs :: "env \<Rightarrow> pyval list \<Rightarrow> state \<Rightarrow> (exn + pyval list) \<times> state" where
  "build_legs E [] st = (Inr [], st)"
| "build_legs E (leg # rest) st =
     (case build_order_dict E leg st of
        (Inl e, st1) \<Rightarrow> (Inl e, st1)
      | (Inr order_dict, st1) \<Rightarrow>
          (case build_legs E rest st1 of
             (Inl e, st2) \<Rightarrow> (Inl e, st2)
           | (Inr basket, st2) \<Rightarrow> (Inr (order_dict # basket), st2)))"

text \<open>What \<open>for order_data in orders\<close> iterates over.\<close>

definition iter_items :: "pyval \<Rightarrow> exn + pyval list" where
  "iter_items v =
     (case v of
        PList xs \<Rightarrow> Inr xs
      | PDict d \<Rightarrow> Inr (map (\<lambda>(k, _). PStr k) d)
      | PStr s \<Rightarrow> Inr (map (\<lambda>c. PStr [c]) s)
      | PInstrument e t s n x l \<Rightarrow> Inr [e, t, s, n, x, l]
      | _ \<Rightarrow> Inl (Exn TypeError ''object is not iterable''))"

text \<open>\<open>BasketOrderExecutor._process_basket_response\<close> (lines 112-152).\<close>

definition order_numbers_of :: "pyval list \<Rightarrow> pyval list" where
  "order_numbers_of responses =
     concat (map (\<lambda>resp. case resp of
                    PDict d \<Rightarrow>
                      (if dict_get d ''stat'' = PStr ''Ok'' \<and> truthy (dict_get d ''NOrdNo'')
                       then [dict_get d ''NOrdNo''] else [])
                  | _ \<Rightarrow> []) responses)"

definition process_basket_response :: "env \<Rightarrow> pyval \<Rightarrow> pyval \<Rightarrow> pyval" where
  "process_basket_response E basket_name response =
     (let result = [(''success'', PBool False), (''basket_name'', basket_name),
                    (''raw_response'', response), (''order_numbers'', PList []),
                    (''message'', PStr [])]
      in case response of
           PList xs \<Rightarrow>
             (if length xs = 0
              then PDict (dict_set result ''message'' (PStr ''Empty response from basket order''))
              else (let r1 = dict_set result ''success'' (PBool True);
                        r2 = dict_set r1 ''message''
                               (PStr ('' Basket executed with '' @
                                      py_str E (PNum (real (length xs))) @ '' responses''))
                    in PDict (dict_set r2 ''order_numbers'' (PList (order_numbers_of xs)))))
         | PDict d \<Rightarrow>
             (if dict_get d ''stat'' = PStr ''Ok''
              then (let r1 = dict_set result ''success'' (PBool True);
                        r2 = dict_set r1 ''order_numbers'' (PList [dict_get d ''NOrdNo''])
                    in PDict (dict_set r2 ''message''
                         (PStr (''Order placed: NOrdNo='' @ py_str E (dict_get d ''NOrdNo'')))))
              else PDict (dict_set result ''message''
                     (PStr ('' Basket failed: '' @ py_str E response))))
         | _ \<Rightarrow>
             PDict (dict_set result ''message''
               (PStr (''Unexpected response type: '' @ py_type E response))))"

text \<open>The two results \<open>execute_basket\<close> returns without building anything, and the one
  it returns when a leg's build raises.\<close>

definition basket_failure :: "string \<Rightarrow> pyval" where
  "basket_failure m = PDict [(''success'', PBool False), (''message'', PStr m)]"

text \<open>
  \<open>BasketOrderExecutor.execute_basket\<close> (lines 15-54). Every leg is built before the
  remote call; the call is wrapped in \<open>BasketOrderExecutionError\<close> when it raises.
\<close>

definition execute_basket :: "env \<Rightarrow> pyval \<Rightarrow> state \<Rightarrow> (exn + pyval) \<times> state" where
  "execute_basket E basket_config st =
     (case basket_config of
        PDict cfg \<Rightarrow>
          (let basket_name = dict_get_default cfg ''name'' (PStr ''Unnamed Basket'')
           in if \<not> truthy (dict_get_default cfg ''enabled'' (PBool True))
              then (Inr (basket_failure ''Basket disabled''), st)
              else (let orders = dict_get_default cfg ''orders'' (PList [])
                    in if \<not> truthy orders
                       then (Inr (basket_failure ''Empty basket''), st)
                       else (case iter_items orders of
                               Inl e \<Rightarrow> (Inl e, st)
                             | Inr legs \<Rightarrow>
                                 (case build_legs E legs st of
                                    (Inl e, st1) \<Rightarrow>
                                      (Inr (basket_failure (''Order build failed: '' @ exn_str e)),
                                       st1)
                                  | (Inr basket, st1) \<Rightarrow>
                                      (case issue E (PlaceBasketOrder basket) st1 of
                                         (Inl e, st2) \<Rightarrow>
                                           (Inl (Exn BasketOrderExecutionError
                                                   (''API Error: '' @ exn_str e)), st2)
                                       | (Inr response, st2) \<Rightarrow>
                                           (Inr (process_basket_response E basket_name response),
                                            st2))))))
      | _ \<Rightarrow> (Inl (attribute_error ''get''), st))"


text \<open>A session whose table holds INFY, and a basket of two legs: INFY, and an option
  contract that the table does not hold.\<close>

definition seeded_state :: state where
  "seeded_state = new_state \<lparr> instruments := [''INFY'' \<mapsto> infy] \<rparr>"

definition leg_infy :: pyval where
  "leg_infy = PDict [(''name'', PStr ''leg1''), (''instrument'', PStr ''INFY''),
                     (''transaction_type'', PStr ''Buy''), (''quantity'', PNum 1),
                     (''order_type'', PStr ''Market''), (''product_type'', PStr ''Intraday'')]"

definition option_order :: "(string \<times> pyval) list" where
  "option_order = [(''name'', PStr ''leg2''), (''instrument'', PStr ''NIFTY_DEC30_CE_26000''),
                   (''transaction_type'', PStr ''Sell''), (''quantity'', PNum 50),
                   (''order_type'', PStr ''Market''), (''product_type'', PStr ''Intraday'')]"

definition leg_option :: pyval where
  "leg_option = PDict option_order"

definition built_infy :: pyval where
  "built_infy = PDict [(''instrument'', infy),
                       (''order_type'', PEnum ''OrderType'' ''Market''),
                       (''quantity'', PNum 1),
                       (''transaction_type'', PEnum ''TransactionType'' ''Buy''),
                       (''product_type'', PEnum ''ProductType'' ''Intraday''),
                       (''order_tag'', PStr [])]"


section \<open>Threaded orchestrator: the task of one account\<close>

text \<open>
  The keyword arguments of the call of \<open>place_order\<close> in \<open>_execute_on_single_account\<close>
  (threaded_orchestrator.py, lines 95-109), evaluated in the order written: the five
  entries read with \<open>order_data[...]\<close> raise KeyError when missing.
\<close>

definition order_args_of ::
  "env \<Rightarrow> string \<Rightarrow> (string \<times> pyval) list \<Rightarrow> pyval \<Rightarrow> exn + order_args"
where
  "order_args_of E acct_name order_data inst =
     bind_exn (dict_index order_data ''name'') (\<lambda>nm.
     bind_exn (dict_index order_data ''transaction_type'') (\<lambda>tt.
     bind_exn (dict_index order_data ''quantity'') (\<lambda>qty.
     bind_exn (dict_index order_data ''order_type'') (\<lambda>ot.
     bind_exn (dict_index order_data ''product_type'') (\<lambda>pt.
       Inr \<lparr> name = nm, transaction_type = tt, instrument = inst, quantity = qty,
             order_type = ot, product_type = pt,
             price = dict_get_default order_data ''price'' (PNum 0),
             trigger_price = dict_get order_data ''trigger_price'',
             stop_loss = dict_get order_data ''stop_loss'',
             square_off = dict_get order_data ''square_off'',
             trailing_sl = dict_get order_data ''trailing_sl'',
             is_amo = dict_get_default order_data ''is_amo'' (PBool False),
             order_tag = PStr (acct_name @ ''_'' @
                           py_str E (dict_get_default order_data ''order_tag'' (PStr []))) \<rparr>)))))"

text \<open>The \<open>try\<close> block (lines 93-116): whatever is raised inside it becomes a failure
  entry of the account's result list.\<close>

definition submit_order ::
  "env \<Rightarrow> string \<Rightarrow> (string \<times> pyval) list \<Rightarrow> pyval \<Rightarrow> state \<Rightarrow> (exn + pyval option) \<times> state"
where
  "submit_order E acct_name order_data inst st =
     (case dict_index order_data ''name'' of
        Inl e \<Rightarrow>
          (Inr (Some (failure_entry e)), logger ERROR (''Order failed: '' @ exn_str e) st)
      | Inr nm \<Rightarrow>
          (let st1 = logger INFO (''Executing: '' @ py_str E nm @ '' on '' @ acct_name) st
           in case order_args_of E acct_name order_data inst of
                Inl e \<Rightarrow>
                  (Inr (Some (failure_entry e)),
                   logger ERROR (''Order failed: '' @ exn_str e) st1)
              | Inr args \<Rightarrow>
                  (case place_order E args st1 of
                     (Inl e, st2) \<Rightarrow>
                       (Inr (Some (failure_entry e)),
                        logger ERROR (''Order failed: '' @ exn_str e) st2)
                   | (Inr result, st2) \<Rightarrow> (Inr (Some result), st2))))"

text \<open>
  One turn of the loop over \<open>order_config\<close> (lines 65-116). The result is \<open>Inl\<close> when
  an exception leaves the loop (and the task), \<open>Inr None\<close> when the order is skipped
  (\<open>continue\<close>), \<open>Inr (Some r)\<close> when \<open>r\<close> is appended to \<open>individual_orders\<close>.
\<close>

definition process_order ::
  "env \<Rightarrow> string \<Rightarrow> pyval \<Rightarrow> state \<Rightarrow> (exn + pyval option) \<times> state"
where
  "process_order E acct_name order st =
     (case order of
        PDict order_data \<Rightarrow>
          (if \<not> truthy (dict_get_default order_data ''enabled'' (PBool True))
           then (Inr None,
                 logger DEBUG (''Skipping disabled order: '' @
                               py_str E (dict_get order_data ''name'')) st)
           else
             (case dict_index order_data ''instrument'' of
                Inl e \<Rightarrow> (Inl e, st)
              | Inr iv \<Rightarrow>
                  (let key = instrument_key E iv;
                       inst = shared_get st key
                   in case unresolved inst of
                        Inl e \<Rightarrow> (Inl e, st)
                      | Inr False \<Rightarrow> submit_order E acct_name order_data inst st
                      | Inr True \<Rightarrow>
                          (if CHR ''_'' \<notin> set key
                           then
                             (let st1 = logger INFO (''Dynamic resolution attempt: '' @ key) st
                              in case resolve_equity E ''NSE'' key st1 of
                                   (resolved, st2) \<Rightarrow>
                                     (case unresolved resolved of
                                        Inl e \<Rightarrow> (Inl e, st2)
                                      | Inr True \<Rightarrow>
                                          (Inr None,
                                           logger WARNING
                                             (''Dynamic resolution failed for '' @ key @
                                              '', skipping'') st2)
                                      | Inr False \<Rightarrow>
                                          (let st3 = st2\<lparr>instruments :=
                                                        (instruments st2)(key \<mapsto> resolved)\<rparr>
                                           in case table_set st3 key resolved of
                                                Inl e \<Rightarrow> (Inl e, st3)
                                              | Inr st4 \<Rightarrow>
                                                  submit_order E acct_name order_data resolved
                                                    (logger INFO
                                                       (''Dynamically resolved: '' @ key @
                                                        '' (Token: '' @
                                                        py_str E (getattr_default resolved
                                                                    ''token'' PNone) @ '')'')
                                                       st4))))
                           else (Inr None,
                                 logger WARNING
                                   (''Invalid F&O instrument '' @ key @ '', skipping'') st)))))
      | _ \<Rightarrow> (Inl (attribute_error ''get''), st))"

text \<open>The loop itself, with the list \<open>account_results["individual_orders"]\<close> built so
  far.\<close>

fun run_orders ::
  "env \<Rightarrow> string \<Rightarrow> pyval list \<Rightarrow> state \<Rightarrow> pyval list \<Rightarrow> (exn + pyval list) \<times> state"
where
  "run_orders E acct_name [] st results = (Inr results, st)"
| "run_orders E acct_name (order # rest) st results =
     (case process_order E acct_name order st of
        (Inl e, st1) \<Rightarrow> (Inl e, st1)
      | (Inr None, st1) \<Rightarrow> run_orders E acct_name rest st1 results
      | (Inr (Some r), st1) \<Rightarrow> run_orders E acct_name rest st1 (results @ [r]))"

text \<open>\<open>ThreadedOrchestrator._execute_on_single_account\<close> (lines 48-118).\<close>

definition execute_on_single_account ::
  "env \<Rightarrow> string \<Rightarrow> pyval list \<Rightarrow> state \<Rightarrow> (exn + pyval) \<times> state"
where
  "execute_on_single_account E acct_name order_config st =
     (let st0 = logger INFO (''Starting execution for '' @ acct_name) st;
          st1 = logger INFO (''Processing '' @ py_str E (PNum (real (length order_config))) @
                             '' orders for '' @ acct_name) st0
      in case run_orders E acct_name order_config st1 [] of
           (Inl e, st2) \<Rightarrow> (Inl e, st2)
         | (Inr results, st2) \<Rightarrow>
             (Inr (PDict [(''individual_orders'', PList results),
                          (''basket_orders'', PList [])]), st2))"

text \<open>The state in which the loop of the task starts, after the two records of lines 59
  and 63, and what the task makes of the outcome of the loop.\<close>

definition task_start :: "env \<Rightarrow> string \<Rightarrow> pyval list \<Rightarrow> state \<Rightarrow> state" where
  "task_start E acct_name order_config st =
     logger INFO (''Processing '' @ py_str E (PNum (real (length order_config))) @
                  '' orders for '' @ acct_name)
       (logger INFO (''Starting execution for '' @ acct_name) st)"

definition task_outcome :: "(exn + pyval list) \<times> state \<Rightarrow> (exn + pyval) \<times> state" where
  "task_outcome outcome =
     (case outcome of
        (Inl e, st) \<Rightarrow> (Inl e, st)
      | (Inr results, st) \<Rightarrow>
          (Inr (PDict [(''individual_orders'', PList results),
                       (''basket_orders'', PList [])]), st))"

text \<open>The lookups a task may issue on its own: equity lookups of symbols without an
  underscore, and no lookup of a derivative.\<close>

fun plain_lookup :: "call \<Rightarrow> bool" where
  "plain_lookup (GetInstrumentBySymbol ex smb) = (CHR ''_'' \<notin> set smb)"
| "plain_lookup (GetInstrumentForFno ex smb x f k ce) = False"
| "plain_lookup _ = True"

text \<open>From \<open>st\<close> to \<open>st'\<close> the list of calls only grew, and by such calls only.\<close>

definition issued_only_plain :: "state \<Rightarrow> state \<Rightarrow> bool" where
  "issued_only_plain st st' =
     (take (length (calls st)) (calls st') = calls st \<and>
      list_all plain_lookup (drop (length (calls st)) (calls st')))"

text \<open>What the brokerage that knows INFY makes of the order \<open>leg_infy\<close> placed for the
  account \<open>A\<close>: the call it receives and the result of \<open>place_order\<close>. And a basket
  whose second leg is the option contract.\<close>

definition infy_call :: call where
  "infy_call = PlaceOrder [(''transaction_type'', PEnum ''TransactionType'' ''Buy''),
                           (''instrument'', infy),
                           (''quantity'', PNum 1),
                           (''order_type'', PEnum ''OrderType'' ''Market''),
                           (''product_type'', PEnum ''ProductType'' ''Intraday''),
                           (''price'', PNum 0),
                           (''is_amo'', PBool False),
                           (''order_tag'', PStr ''A_'')]"

definition placed_infy :: pyval where
  "placed_infy = PDict [(''success'', PBool True), (''order_number'', PStr ''2301''),
                        (''raw_response'',
                           PDict [(''stat'', PStr ''Ok''), (''NOrdNo'', PStr ''2301'')]),
                        (''message'', PStr ''Order placed: NOrdNo=2301'')]"

definition three_leg_basket :: "(string \<times> pyval) list" where
  "three_leg_basket = [(''name'', PStr ''B2''),
                       (''orders'', PList [leg_infy, leg_option, leg_infy])]"

section \<open>Threaded orchestrator: tagging the legs of a basket\<close>

text \<open>
  \<open>_tag_basket_orders\<close> assigns to a key of each order dictionary, so the order
  dictionaries are objects in a store, known by their addresses, and the basket holds
  its legs by address. The basket dictionary itself and the list under \<open>orders\<close> are
  never assigned to, so they are kept as values: the entries of the basket other than
  \<open>orders\<close>, and the addresses of the legs (none when the key is absent, as
  \<open>get("orders", [])\<close> has it).
\<close>

type_synonym addr = nat

type_synonym store = "addr \<Rightarrow> (string \<times> pyval) list"

record basket =
  entries :: "(string \<times> pyval) list"
  order_refs :: "addr list"

text \<open>The loop of \<open>_tag_basket_orders\<close> (threaded_orchestrator.py, lines 180-182):
  \<open>order["order_tag"] = f"{account_name}_{original_tag}"\<close> on the object itself.\<close>

fun tag_orders :: "env \<Rightarrow> string \<Rightarrow> addr list \<Rightarrow> store \<Rightarrow> store" where
  "tag_orders E acct_name [] s = s"
| "tag_orders E acct_name (a # rest) s =
     (let original_tag = dict_get_default (s a) ''order_tag'' (PStr [])
      in tag_orders E acct_name rest
           (s(a := dict_set (s a) ''order_tag''
                     (PStr (acct_name @ ''_'' @ py_str E original_tag)))))"

text \<open>
  \<open>ThreadedOrchestrator._tag_basket_orders\<close> (lines 177-183). \<open>basket.copy()\<close> is a
  new dictionary with the entries of the old one: the same values, the same list of
  the same order dictionaries. The copy is returned with the store the loop leaves.
\<close>

definition tag_basket_orders :: "env \<Rightarrow> basket \<Rightarrow> string \<Rightarrow> store \<Rightarrow> basket \<times> store" where
  "tag_basket_orders E b acct_name s =
     (let basket_copy = \<lparr> entries = entries b, order_refs = order_refs b \<rparr>
      in (basket_copy, tag_orders E acct_name (order_refs basket_copy) s))"

text \<open>A basket specification as it reads in a store.\<close>

definition view :: "store \<Rightarrow> basket \<Rightarrow> pyval" where
  "view s b = PDict (entries b @ [(''orders'', PList (map (\<lambda>a. PDict (s a)) (order_refs b)))])"

text \<open>A basket of one leg with the tag T1.\<close>

definition empty_store :: store where
  "empty_store a = []"

definition store_b1 :: store where
  "store_b1 = empty_store (0 := [(''instrument'', PStr ''INFY''), (''order_tag'', PStr ''T1'')])"

definition basket_b1 :: basket where
  "basket_b1 = \<lparr> entries = [(''name'', PStr ''B1'')], order_refs = [0] \<rparr>"

section \<open>Properties\<close>

lemma dict_get_dict_set [simp]:
  "dict_get (dict_set d k v) k' = (if k' = k then v else dict_get d k')"
  by (induction d) (auto simp: dict_get_def dict_get_default_def)

text \<open>
  Claim C4. \<open>_process_response\<close> classifies a response in exactly three ways: a mapping
  whose \<open>stat\<close> is \<open>Ok\<close> is a success carrying the order number found under
  \<open>NOrdNo\<close>; a non-empty list is a success without an order number, whatever its
  elements are; everything else (an empty list, another mapping, another type) is a
  failure with a non-empty message. The raw response is kept in every case.
\<close>

theorem process_response_classification:
  "field (process_response E nm r) ''raw_response'' = r \<and>
   (ok_mapping r \<longrightarrow>
      field (process_response E nm r) ''success'' = PBool True \<and>
      (\<forall>d. r = PDict d \<longrightarrow>
         field (process_response E nm r) ''order_number'' = dict_get d ''NOrdNo'')) \<and>
   (nonempty_list r \<longrightarrow>
      field (process_response E nm r) ''success'' = PBool True \<and>
      field (process_response E nm r) ''order_number'' = PNone) \<and>
   (\<not> ok_mapping r \<and> \<not> nonempty_list r \<longrightarrow>
      field (process_response E nm r) ''success'' = PBool False \<and>
      field (process_response E nm r) ''order_number'' = PNone \<and>
      (\<exists>m. field (process_response E nm r) ''message'' = PStr m \<and> m \<noteq> []))"
  by (cases r) (simp_all add: process_response_def Let_def dict_get_def dict_get_default_def)

theorem process_response_classification_witness:
  "ok_mapping (PDict [(''stat'', PStr ''Ok''), (''NOrdNo'', PStr ''2301'')]) \<and>
   field (process_response plain_env ''o1''
     (PDict [(''stat'', PStr ''Ok''), (''NOrdNo'', PStr ''2301'')])) ''success'' = PBool True \<and>
   field (process_response plain_env ''o1''
     (PDict [(''stat'', PStr ''Ok''), (''NOrdNo'', PStr ''2301'')])) ''order_number'' = PStr ''2301'' \<and>
   nonempty_list (PList [PStr ''junk'']) \<and>
   field (process_response plain_env ''o1'' (PList [PStr ''junk''])) ''success'' = PBool True \<and>
   field (process_response plain_env ''o1'' (PList [PStr ''junk''])) ''order_number'' = PNone \<and>
   \<not> ok_mapping (PList []) \<and> \<not> nonempty_list (PList []) \<and>
   field (process_response plain_env ''o1'' (PList [])) ''success'' = PBool False \<and>
   \<not> ok_mapping (PDict [(''stat'', PStr ''Not_ok'')]) \<and>
   field (process_response plain_env ''o1'' (PDict [(''stat'', PStr ''Not_ok'')])) ''success''
     = PBool False \<and>
   field (process_response plain_env ''o1'' (PStr ''oops'')) ''success'' = PBool False"
  using
    process_response_classification [of plain_env "''o1''"
      "PDict [(''stat'', PStr ''Ok''), (''NOrdNo'', PStr ''2301'')]"]
    process_response_classification [of plain_env "''o1''" "PList [PStr ''junk'']"]
    process_response_classification [of plain_env "''o1''" "PList []"]
    process_response_classification [of plain_env "''o1''" "PDict [(''stat'', PStr ''Not_ok'')]"]
    process_response_classification [of plain_env "''o1''" "PStr ''oops''"]
  by (simp add: dict_get_def dict_get_default_def)

subsection \<open>Collection of the per-account results\<close>

lemma collect_results_dom:
  "dom (collect_results f2a fr is results) = dom results \<union> (\<lambda>i. f2a ! i) ` set is"
  by (induction "is" arbitrary: results) (auto simp: Let_def split: sum.splits)

lemma collect_results_apply:
  "distinct f2a \<Longrightarrow> distinct is \<Longrightarrow> set is \<subseteq> {0..<length f2a} \<Longrightarrow> j < length f2a \<Longrightarrow>
   collect_results f2a fr is results (f2a ! j) =
     (if j \<in> set is then Some (entry_of fr j) else results (f2a ! j))"
proof (induction "is" arbitrary: results)
  case Nil
  then show ?case by simp
next
  case (Cons i rest)
  have neq: "j \<noteq> i \<Longrightarrow> f2a ! j \<noteq> f2a ! i"
    using Cons.prems by (simp add: nth_eq_iff_index_eq)
  show ?case
    using Cons.prems neq
    by (cases "fr i") (auto simp: Cons.IH Let_def entry_of_def)
qed

text \<open>
  Claim C1, as stated, fails: the claim promises a mapping for every sessions mapping,
  but an orchestrator built with \<open>max_workers = 0\<close> (main.py builds it with
  \<open>min(5, len(sessions))\<close>, which is 0 for an empty sessions mapping) raises ValueError
  from the pool's constructor before any task is submitted.
\<close>

theorem execute_on_all_accounts_no_workers:
  "execute_on_all_accounts 0 no_sessions no_results [] =
     Inl (Exn ValueError ''max_workers must be greater than 0'')"
  by (simp add: execute_on_all_accounts_def thread_pool_def)

text \<open>
  Claim C1, amended: for an orchestrator with at least one worker, for every sessions
  mapping (a dictionary: its keys are distinct), whatever the tasks return or raise and
  in whatever order they complete, \<open>execute_on_all_accounts\<close> and
  \<open>execute_basket_on_all_accounts\<close> return a mapping whose keys are exactly the keys of
  \<open>sessions\<close>; the entry of an account is \<open>{success: False, error: str(e)}\<close> when its
  task raised \<open>e\<close> and what its task returned otherwise. The entry of an account
  depends on the outcome of its own task only.
\<close>

theorem execute_on_all_accounts_isolation:
  assumes "0 < max_workers"
    and "distinct (map fst sessions)"
    and "distinct completed \<and> set completed = {0..<length sessions}"
  shows "(\<exists>results.
            execute_on_all_accounts max_workers sessions task_result completed = Inr results \<and>
            dom results = fst ` set sessions \<and>
            (\<forall>i<length sessions. results (fst (sessions ! i)) = Some (entry_of task_result i))) \<and>
         (\<exists>results.
            execute_basket_on_all_accounts max_workers sessions task_result completed = Inr results \<and>
            dom results = fst ` set sessions \<and>
            (\<forall>i<length sessions. results (fst (sessions ! i)) = Some (entry_of task_result i)))"
proof -
  let ?f2a = "map fst sessions"
  let ?r = "collect_results ?f2a task_result completed Map.empty"
  have img: "(\<lambda>i. ?f2a ! i) ` set completed = fst ` set sessions"
  proof -
    have "(\<lambda>i. ?f2a ! i) ` {0..<length ?f2a} = set ?f2a"
      by (metis atLeast0LessThan map_nth set_map set_upt)
    then show ?thesis using assms(3) by simp
  qed
  have d: "dom ?r = fst ` set sessions"
    by (simp add: collect_results_dom img)
  have v: "\<forall>i<length sessions. ?r (fst (sessions ! i)) = Some (entry_of task_result i)"
  proof (intro allI impI)
    fix i assume i: "i < length sessions"
    have "?r (?f2a ! i) =
            (if i \<in> set completed then Some (entry_of task_result i) else Map.empty (?f2a ! i))"
      by (rule collect_results_apply) (use assms i in auto)
    then show "?r (fst (sessions ! i)) = Some (entry_of task_result i)"
      using i assms(3) by simp
  qed
  show ?thesis
    using assms(1) d v
    by (simp add: execute_on_all_accounts_def execute_basket_on_all_accounts_def thread_pool_def)
qed

theorem execute_on_all_accounts_isolation_witness:
  "(0::int) < 5 \<and> distinct (map fst three_sessions) \<and>
   distinct [2, 0, 1::nat] \<and> set [2, 0, 1::nat] = {0..<length three_sessions} \<and>
   (\<exists>results.
      execute_on_all_accounts 5 three_sessions three_results [2, 0, 1] = Inr results \<and>
      dom results = {''A'', ''B'', ''C''} \<and>
      results ''A'' = Some (PDict [(''individual_orders'', PList []), (''basket_orders'', PList [])]) \<and>
      results ''B'' = Some (PDict [(''success'', PBool False), (''error'', PStr ''instrument'')]) \<and>
      results ''C'' = Some (PDict [(''individual_orders'', PList []), (''basket_orders'', PList [])]))"
proof -
  have h1: "(0::int) < 5" by simp
  have h2: "distinct (map fst three_sessions)" by (simp add: three_sessions_def)
  have h3: "distinct [2, 0, 1::nat] \<and> set [2, 0, 1::nat] = {0..<length three_sessions}"
    by (auto simp: three_sessions_def)
  from execute_on_all_accounts_isolation [OF h1 h2 h3, of three_results]
  obtain results where r:
    "execute_on_all_accounts 5 three_sessions three_results [2, 0, 1] = Inr results"
    "dom results = fst ` set three_sessions"
    "\<forall>i<length three_sessions. results (fst (three_sessions ! i)) = Some (entry_of three_results i)"
    by blast
  have "results ''A'' = Some (entry_of three_results 0)"
    using r(3) [rule_format, of 0] by (simp add: three_sessions_def)
  moreover have "results ''B'' = Some (entry_of three_results 1)"
    using r(3) [rule_format, of 1] by (simp add: three_sessions_def)
  moreover have "results ''C'' = Some (entry_of three_results 2)"
    using r(3) [rule_format, of 2] by (simp add: three_sessions_def)
  ultimately show ?thesis
    using h1 h2 h3 r(1,2)
    by (auto simp: three_sessions_def three_results_def entry_of_def failure_entry_def)
qed

subsection \<open>Collection of the account sessions\<close>




text \<open>A descriptor without a name makes the comprehension raise KeyError.\<close>

lemma future_names_unnamed:
  "a \<in> set accs \<Longrightarrow> account_name a = None \<Longrightarrow>
     future_names accs = Inl (key_error ''account_name'')"
  by (induction accs) (auto simp: config_index_def split: option.splits sum.splits)

text \<open>
  Claim C10. When no account of the configuration is enabled, \<open>initialize_all\<close> does
  not return an empty mapping: the pool is built with \<open>min(5, 0) = 0\<close> workers and its
  constructor raises ValueError, which leaves \<open>initialize_all\<close>.
\<close>

theorem initialize_all_no_enabled_accounts:
  assumes "filter is_enabled accounts_config = []"
  shows "initialize_all auth accounts_config sessions completed =
           Inl (Exn ValueError ''max_workers must be greater than 0'')"
  using assms by (simp add: initialize_all_def thread_pool_def)

theorem initialize_all_no_enabled_accounts_witness:
  "filter is_enabled [acc_D] = [] \<and>
   initialize_all reject_u2 [acc_D] initial_sessions [] =
     Inl (Exn ValueError ''max_workers must be greater than 0'')"
proof -
  have h: "filter is_enabled [acc_D] = []"
    by (simp add: is_enabled_def acc_D_def)
  show ?thesis
    using h initialize_all_no_enabled_accounts [OF h, of reject_u2 initial_sessions "[]"]
    by simp
qed




subsection \<open>Resolver cache\<close>

lemma resolve_with_again:
  assumes "resolve_with E key c ex smb st = (r, st1)" and "r \<noteq> PNone"
  shows "resolve_with E key c ex smb st1 = (r, st1)"
  using assms
  by (auto simp: resolve_with_def issue_def split: option.splits sum.splits prod.splits)

lemma resolve_with_miss:
  assumes "cache st key = None"
  shows "calls (snd (resolve_with E key c ex smb st)) = calls st @ [c] \<and>
         (\<forall>result inst. remote E (calls st) c = Inr result \<and>
              normalize_instrument E result ex smb = Inr inst \<longrightarrow>
                fst (resolve_with E key c ex smb st) = inst \<and>
                cache (snd (resolve_with E key c ex smb st)) = (cache st)(key \<mapsto> inst)) \<and>
         ((\<forall>result. remote E (calls st) c \<noteq> Inr result) \<or>
          (\<exists>result e. remote E (calls st) c = Inr result \<and>
              normalize_instrument E result ex smb = Inl e) \<longrightarrow>
                fst (resolve_with E key c ex smb st) = PNone \<and>
                cache (snd (resolve_with E key c ex smb st)) = cache st)"
  using assms
  by (auto simp: resolve_with_def issue_def split: option.splits sum.splits prod.splits)

text \<open>
  Claim C6, amended: when a resolution through \<open>resolve_equity\<close> or \<open>resolve_fno\<close>
  returns an instrument (anything but \<open>None\<close>), resolving the same key again in the
  state it left returns the same instrument and leaves the state, hence the list of
  remote calls, as it is: the second resolution issues no remote call. On a cache miss
  exactly one lookup is issued; when the lookup answers and its answer normalises, the
  normalised instrument is returned and stored in the cache under the computed key.
\<close>

theorem resolver_cache:
  "(\<forall>r st1. resolve_equity E exchange symbol st = (r, st1) \<and> r \<noteq> PNone \<longrightarrow>
       resolve_equity E exchange symbol st1 = (r, st1)) \<and>
   (\<forall>r st1. resolve_fno E exchange symbol expiry is_fut strike is_ce st = (r, st1) \<and> r \<noteq> PNone \<longrightarrow>
       resolve_fno E exchange symbol expiry is_fut strike is_ce st1 = (r, st1)) \<and>
   (cache st (equity_key exchange symbol) = None \<longrightarrow>
      calls (snd (resolve_equity E exchange symbol st)) =
        calls st @ [GetInstrumentBySymbol exchange symbol] \<and>
      (\<forall>result inst.
         remote E (calls st) (GetInstrumentBySymbol exchange symbol) = Inr result \<and>
         normalize_instrument E result exchange symbol = Inr inst \<longrightarrow>
           fst (resolve_equity E exchange symbol st) = inst \<and>
           cache (snd (resolve_equity E exchange symbol st)) =
             (cache st)(equity_key exchange symbol \<mapsto> inst))) \<and>
   (cache st (fno_key E exchange symbol expiry is_fut strike is_ce) = None \<longrightarrow>
      calls (snd (resolve_fno E exchange symbol expiry is_fut strike is_ce st)) =
        calls st @ [GetInstrumentForFno exchange symbol expiry is_fut strike is_ce] \<and>
      (\<forall>result inst.
         remote E (calls st) (GetInstrumentForFno exchange symbol expiry is_fut strike is_ce)
           = Inr result \<and>
         normalize_instrument E result exchange symbol = Inr inst \<longrightarrow>
           fst (resolve_fno E exchange symbol expiry is_fut strike is_ce st) = inst \<and>
           cache (snd (resolve_fno E exchange symbol expiry is_fut strike is_ce st)) =
             (cache st)(fno_key E exchange symbol expiry is_fut strike is_ce \<mapsto> inst)))"
  unfolding resolve_equity_def resolve_fno_def
  using resolve_with_again resolve_with_miss
  by (intro conjI allI impI; blast)

text \<open>
  Claim C6, as stated, fails: a resolution whose lookup raises returns \<open>None\<close> and
  stores nothing, so with the cache unchanged in between the second resolution of the same
  key issues a remote call again.
\<close>

theorem resolver_second_lookup_after_failure:
  "cache (snd (resolve_equity down_env ''NSE'' ''INFY'' new_state)) = cache new_state \<and>
   calls (snd (resolve_equity down_env ''NSE'' ''INFY'' new_state)) =
     [GetInstrumentBySymbol ''NSE'' ''INFY''] \<and>
   calls (snd (resolve_equity down_env ''NSE'' ''INFY''
                (snd (resolve_equity down_env ''NSE'' ''INFY'' new_state)))) =
     [GetInstrumentBySymbol ''NSE'' ''INFY'', GetInstrumentBySymbol ''NSE'' ''INFY'']"
  by (simp add: resolve_equity_def resolve_with_def issue_def equity_key_def new_state_def
        down_env_def plain_env_def always_raises_def)


theorem resolver_cache_witness:
  "resolve_equity infy_env ''NSE'' ''INFY'' new_state = (infy, infy_cached) \<and> infy \<noteq> PNone \<and>
   resolve_equity infy_env ''NSE'' ''INFY'' infy_cached = (infy, infy_cached) \<and>
   cache new_state (equity_key ''NSE'' ''INFY'') = None \<and>
   calls (snd (resolve_equity infy_env ''NSE'' ''INFY'' new_state)) =
     calls new_state @ [GetInstrumentBySymbol ''NSE'' ''INFY'']"
proof -
  have first: "resolve_equity infy_env ''NSE'' ''INFY'' new_state = (infy, infy_cached)"
    by (simp add: resolve_equity_def resolve_with_def issue_def equity_key_def new_state_def
          infy_env_def plain_env_def knows_infy_def normalize_instrument_def infy_def
          infy_cached_def getattr_default_def)
  have ne: "infy \<noteq> PNone" by (simp add: infy_def)
  have miss: "cache new_state (equity_key ''NSE'' ''INFY'') = None"
    by (simp add: new_state_def)
  show ?thesis
    using first ne miss
      resolver_cache [where E = infy_env and exchange = "''NSE''" and symbol = "''INFY''"
        and st = new_state]
    by blast
qed

subsection \<open>Placing an order\<close>

text \<open>
  Claim C2, amended: for every order whose instrument is missing (\<open>None\<close>, or any other
  false value) or has no \<open>token\<close> attribute, \<open>place_order\<close> raises
  \<open>OrderExecutionError\<close> ("Invalid instrument for ...") at once and leaves the state
  untouched: no remote call is issued.
\<close>

theorem place_order_invalid_instrument:
  assumes "\<not> truthy (instrument a) \<or> \<not> hasattr (instrument a) ''token''"
  shows "place_order E a st =
           (Inl (Exn OrderExecutionError (''Invalid instrument for '' @ py_str E (name a))), st)"
  using assms by (simp add: place_order_def)

theorem place_order_invalid_instrument_witness:
  "\<not> truthy (instrument (market_order PNone)) \<and>
   place_order plain_env (market_order PNone) new_state =
     (Inl (Exn OrderExecutionError ''Invalid instrument for o1''), new_state)"
proof -
  have h: "\<not> truthy (instrument (market_order PNone)) \<or>
    \<not> hasattr (instrument (market_order PNone)) ''token''"
    by (simp add: market_order_def)
  show ?thesis
    using h place_order_invalid_instrument [OF h, of plain_env new_state]
    by (simp add: market_order_def plain_env_def plain_str_def)
qed

text \<open>
  Claim C2, as stated, fails: an instrument record whose token is empty is a true value
  and has a \<open>token\<close> attribute, so it passes the check of \<open>place_order\<close> and the
  remote \<open>place_order\<close> call is issued for it.
\<close>

theorem place_order_empty_token_reaches_remote:
  "place_order plain_env (market_order empty_token) new_state =
     (Inr (process_response plain_env ''o1'' (PList [PNone])),
      new_state \<lparr> calls :=
        [PlaceOrder [(''transaction_type'', PEnum ''TransactionType'' ''Buy''),
                     (''instrument'', empty_token),
                     (''quantity'', PNum 1),
                     (''order_type'', PEnum ''OrderType'' ''Market''),
                     (''product_type'', PEnum ''ProductType'' ''Intraday''),
                     (''price'', PNum 0),
                     (''is_amo'', PBool False),
                     (''order_tag'', PStr [])]] \<rparr>)"
  by (simp add: place_order_def market_order_def empty_token_def hasattr_def enum_lookup_def
        plain_env_def every_member_def issue_def answer_list_def order_params_def new_state_def
        plain_str_def)

lemma map_of_filter_not_none:
  "distinct (map fst xs) \<Longrightarrow>
   map_of (filter (\<lambda>(k, v). v \<noteq> PNone) xs) k =
     (case map_of xs k of None \<Rightarrow> None | Some v \<Rightarrow> included v)"
proof (induction xs)
  case Nil
  then show ?case by simp
next
  case (Cons x xs)
  obtain k' v' where x: "x = (k', v')" by (cases x)
  have notin: "map_of xs k' = None"
    using Cons.prems x by (simp add: map_of_eq_None_iff)
  show ?case
    using Cons x notin by (auto simp: included_def split: option.splits)
qed

lemma order_params_lookup:
  "map_of (order_params t ot pt a) k =
     (case map_of
        [(''transaction_type'', t), (''instrument'', instrument a), (''quantity'', quantity a),
         (''order_type'', ot), (''product_type'', pt), (''price'', price a),
         (''trigger_price'', trigger_price a), (''stop_loss'', stop_loss a),
         (''square_off'', square_off a), (''trailing_sl'', trailing_sl a),
         (''is_amo'', is_amo a), (''order_tag'', order_tag a)] k of
        None \<Rightarrow> None | Some v \<Rightarrow> included v)"
  unfolding order_params_def
  by (rule map_of_filter_not_none) simp

text \<open>
  Claim C7, amended: whenever \<open>place_order\<close> reaches the remote call, the payload holds
  each of price, trigger price, stop-loss, square-off, trailing-stop and after-market
  flag exactly when its value is not \<open>None\<close>, and then with that value. So an absent
  trigger price, stop-loss, square-off or trailing-stop (default \<open>None\<close>) is omitted,
  while price and the after-market flag are sent also at their defaults 0.0 and False.
\<close>

theorem place_order_payload:
  assumes "truthy (instrument a)" and "hasattr (instrument a) ''token''"
    and "enum_lookup E ''TransactionType'' (transaction_type a) = Inr t"
    and "enum_lookup E ''OrderType'' (order_type a) = Inr ot"
    and "enum_lookup E ''ProductType'' (product_type a) = Inr pt"
  shows "\<exists>params.
           calls (snd (place_order E a st)) = calls st @ [PlaceOrder params] \<and>
           map_of params ''price'' = included (price a) \<and>
           map_of params ''trigger_price'' = included (trigger_price a) \<and>
           map_of params ''stop_loss'' = included (stop_loss a) \<and>
           map_of params ''square_off'' = included (square_off a) \<and>
           map_of params ''trailing_sl'' = included (trailing_sl a) \<and>
           map_of params ''is_amo'' = included (is_amo a)"
proof -
  let ?p = "order_params t ot pt a"
  have c: "calls (snd (place_order E a st)) = calls st @ [PlaceOrder ?p]"
    using assms by (simp add: place_order_def issue_def split: sum.splits)
  have m: "map_of ?p ''price'' = included (price a)"
    "map_of ?p ''trigger_price'' = included (trigger_price a)"
    "map_of ?p ''stop_loss'' = included (stop_loss a)"
    "map_of ?p ''square_off'' = included (square_off a)"
    "map_of ?p ''trailing_sl'' = included (trailing_sl a)"
    "map_of ?p ''is_amo'' = included (is_amo a)"
    by (simp_all add: order_params_lookup)
  show ?thesis
    by (rule exI [of _ ?p]) (simp add: c m)
qed


theorem place_order_payload_witness:
  "truthy (instrument (market_order infy)) \<and> hasattr (instrument (market_order infy)) ''token'' \<and>
   enum_lookup plain_env ''TransactionType'' (transaction_type (market_order infy)) =
     Inr (PEnum ''TransactionType'' ''Buy'') \<and>
   enum_lookup plain_env ''OrderType'' (order_type (market_order infy)) =
     Inr (PEnum ''OrderType'' ''Market'') \<and>
   enum_lookup plain_env ''ProductType'' (product_type (market_order infy)) =
     Inr (PEnum ''ProductType'' ''Intraday'') \<and>
   (\<exists>params.
      calls (snd (place_order plain_env (market_order infy) new_state)) =
        calls new_state @ [PlaceOrder params] \<and>
      map_of params ''price'' = Some (PNum 0) \<and>
      map_of params ''trigger_price'' = None \<and>
      map_of params ''stop_loss'' = None \<and>
      map_of params ''square_off'' = None \<and>
      map_of params ''trailing_sl'' = None \<and>
      map_of params ''is_amo'' = Some (PBool False))"
proof -
  have h1: "truthy (instrument (market_order infy))"
    by (simp add: market_order_def infy_def)
  have h2: "hasattr (instrument (market_order infy)) ''token''"
    by (simp add: market_order_def infy_def hasattr_def)
  have h3: "enum_lookup plain_env ''TransactionType'' (transaction_type (market_order infy)) =
     Inr (PEnum ''TransactionType'' ''Buy'')"
    by (simp add: market_order_def enum_lookup_def plain_env_def every_member_def)
  have h4: "enum_lookup plain_env ''OrderType'' (order_type (market_order infy)) =
     Inr (PEnum ''OrderType'' ''Market'')"
    by (simp add: market_order_def enum_lookup_def plain_env_def every_member_def)
  have h5: "enum_lookup plain_env ''ProductType'' (product_type (market_order infy)) =
     Inr (PEnum ''ProductType'' ''Intraday'')"
    by (simp add: market_order_def enum_lookup_def plain_env_def every_member_def)
  have v: "included (price (market_order infy)) = Some (PNum 0)"
    "included (trigger_price (market_order infy)) = None"
    "included (stop_loss (market_order infy)) = None"
    "included (square_off (market_order infy)) = None"
    "included (trailing_sl (market_order infy)) = None"
    "included (is_amo (market_order infy)) = Some (PBool False)"
    by (simp_all add: market_order_def included_def)
  show ?thesis
    using h1 h2 h3 h4 h5 place_order_payload [OF h1 h2 h3 h4 h5, of new_state]
    unfolding v by blast
qed

text \<open>
  Claim C7, as stated, fails: for an order that leaves every optional argument at its
  default, the payload still carries \<open>price\<close> (0.0) and \<open>is_amo\<close> (False).
\<close>

theorem place_order_default_price_in_payload:
  "calls (snd (place_order plain_env (market_order infy) new_state)) =
     [PlaceOrder [(''transaction_type'', PEnum ''TransactionType'' ''Buy''),
                  (''instrument'', infy),
                  (''quantity'', PNum 1),
                  (''order_type'', PEnum ''OrderType'' ''Market''),
                  (''product_type'', PEnum ''ProductType'' ''Intraday''),
                  (''price'', PNum 0),
                  (''is_amo'', PBool False),
                  (''order_tag'', PStr [])]]"
  by (simp add: place_order_def market_order_def infy_def hasattr_def enum_lookup_def
        plain_env_def every_member_def issue_def answer_list_def order_params_def new_state_def
        plain_str_def)

subsection \<open>Building and submitting a basket\<close>






lemma build_legs_failed_leg:
  "build_legs E pre st = (Inr built, st1) \<Longrightarrow> build_order_dict E leg st1 = (Inl e, st2) \<Longrightarrow>
   build_legs E (pre @ leg # post) st = (Inl e, st2)"
proof (induction pre arbitrary: st built)
  case Nil
  then show ?case by simp
next
  case (Cons p pre)
  obtain r sa where b: "build_order_dict E p st = (r, sa)"
    by (cases "build_order_dict E p st")
  obtain r2 sb where l: "build_legs E pre sa = (r2, sb)"
    by (cases "build_legs E pre sa")
  from Cons.prems(1) b l obtain d ds where
    r: "r = Inr d" and r2: "r2 = Inr ds" and sb: "sb = st1"
    by (cases r; cases r2) auto
  have "build_legs E (pre @ leg # post) sa = (Inl e, st2)"
    using Cons.IH [of sa ds] l r2 sb Cons.prems(2) by simp
  with b r show ?case by simp
qed





subsection \<open>The task of one account\<close>

lemma issued_only_plainI:
  "calls st' = calls st @ cs \<Longrightarrow> list_all plain_lookup cs \<Longrightarrow> issued_only_plain st st'"
  by (simp add: issued_only_plain_def)

lemma issued_only_plainD:
  "issued_only_plain st st' \<Longrightarrow> \<exists>cs. calls st' = calls st @ cs \<and> list_all plain_lookup cs"
  unfolding issued_only_plain_def
  by (metis append_take_drop_id)

lemma issued_only_plain_refl [simp]: "issued_only_plain st st"
  by (simp add: issued_only_plain_def)

lemma issued_only_plain_same_calls:
  "calls st' = calls st \<Longrightarrow> issued_only_plain st st'"
  by (simp add: issued_only_plain_def)

lemma issued_only_plain_trans:
  assumes "issued_only_plain s0 s1" and "issued_only_plain s1 s2"
  shows "issued_only_plain s0 s2"
proof -
  obtain a where a: "calls s1 = calls s0 @ a" "list_all plain_lookup a"
    using issued_only_plainD [OF assms(1)] by blast
  obtain b where b: "calls s2 = calls s1 @ b" "list_all plain_lookup b"
    using issued_only_plainD [OF assms(2)] by blast
  show ?thesis
    by (rule issued_only_plainI [of _ _ "a @ b"]) (use a b in simp_all)
qed

lemma logger_plain [simp]: "issued_only_plain st (logger lv m st)"
  by (simp add: issued_only_plain_def logger_def)

lemma logger_after: "issued_only_plain st st' \<Longrightarrow> issued_only_plain st (logger lv m st')"
  by (simp add: issued_only_plain_def logger_def)

lemma logger_before: "issued_only_plain (logger lv m st) st' \<Longrightarrow> issued_only_plain st st'"
  by (simp add: issued_only_plain_def logger_def)

lemma place_order_plain: "issued_only_plain st (snd (place_order E a st))"
  by (auto simp: place_order_def issue_def issued_only_plain_def split: sum.splits)

lemma resolve_equity_plain:
  "CHR ''_'' \<notin> set smb \<Longrightarrow> issued_only_plain st (snd (resolve_equity E ex smb st))"
  by (auto simp: resolve_equity_def resolve_with_def issue_def issued_only_plain_def
        split: option.splits sum.splits)

lemma table_set_plain: "table_set st key v = Inr st' \<Longrightarrow> issued_only_plain st st'"
  by (auto simp: table_set_def issued_only_plain_def split: table_ref.splits)

lemma submit_order_plain: "issued_only_plain st (snd (submit_order E acct od inst st))"
proof (cases "dict_index od ''name''")
  case (Inl e)
  then show ?thesis by (simp add: submit_order_def)
next
  case (Inr nm)
  let ?st1 = "logger INFO (''Executing: '' @ py_str E nm @ '' on '' @ acct) st"
  show ?thesis
  proof (cases "order_args_of E acct od inst")
    case (Inl e)
    with Inr show ?thesis by (simp add: submit_order_def Let_def logger_after)
  next
    case args: (Inr a)
    obtain r st2 where p: "place_order E a ?st1 = (r, st2)"
      by (cases "place_order E a ?st1")
    have "issued_only_plain ?st1 st2"
      using place_order_plain [of ?st1 E a] p by simp
    then have "issued_only_plain st st2" by (rule logger_before)
    with Inr args p show ?thesis
      by (cases r) (simp_all add: submit_order_def Let_def logger_after)
  qed
qed

lemma process_order_plain: "issued_only_plain st (snd (process_order E acct order st))"
proof (cases order)
  case (PDict od)
  show ?thesis
  proof (cases "truthy (dict_get_default od ''enabled'' (PBool True))")
    case False
    with PDict show ?thesis by (simp add: process_order_def)
  next
    case en: True
    show ?thesis
    proof (cases "dict_index od ''instrument''")
      case (Inl e)
      with PDict en show ?thesis by (simp add: process_order_def)
    next
      case (Inr iv)
      let ?key = "instrument_key E iv"
      let ?inst = "shared_get st ?key"
      show ?thesis
      proof (cases "unresolved ?inst")
        case (Inl e)
        with PDict en Inr show ?thesis by (simp add: process_order_def Let_def)
      next
        case u: (Inr b)
        show ?thesis
        proof (cases b)
          case False
          with PDict en Inr u show ?thesis
            by (simp add: process_order_def Let_def submit_order_plain)
        next
          case True
          show ?thesis
          proof (cases "CHR ''_'' \<in> set ?key")
            case True
            with PDict en Inr u \<open>b\<close> show ?thesis by (simp add: process_order_def Let_def)
          next
            case nu: False
            let ?st1 = "logger INFO (''Dynamic resolution attempt: '' @ ?key) st"
            obtain resolved st2 where r: "resolve_equity E ''NSE'' ?key ?st1 = (resolved, st2)"
              by (cases "resolve_equity E ''NSE'' ?key ?st1")
            have "issued_only_plain ?st1 st2"
              using resolve_equity_plain [OF nu, of ?st1 E "''NSE''"] r by simp
            then have s2: "issued_only_plain st st2" by (rule logger_before)
            let ?st3 = "st2\<lparr>instruments := (instruments st2)(?key \<mapsto> resolved)\<rparr>"
            have s3: "issued_only_plain st ?st3"
              using s2 by (simp add: issued_only_plain_def)
            show ?thesis
            proof (cases "unresolved resolved")
              case (Inl e)
              with PDict en Inr u \<open>b\<close> nu r s2 show ?thesis
                by (simp add: process_order_def Let_def)
            next
              case ur: (Inr b2)
              show ?thesis
              proof (cases b2)
                case True
                with PDict en Inr u \<open>b\<close> nu r s2 ur show ?thesis
                  by (simp add: process_order_def Let_def logger_after)
              next
                case False
                show ?thesis
                proof (cases "table_set ?st3 ?key resolved")
                  case (Inl e)
                  with PDict en Inr u \<open>b\<close> nu r s3 ur \<open>\<not> b2\<close> show ?thesis
                    by (simp add: process_order_def Let_def)
                next
                  case ts: (Inr st4)
                  let ?st5 = "logger INFO (''Dynamically resolved: '' @ ?key @ '' (Token: '' @
                      py_str E (getattr_default resolved ''token'' PNone) @ '')'') st4"
                  have "issued_only_plain ?st3 st4" using ts by (rule table_set_plain)
                  with s3 have "issued_only_plain st st4" by (rule issued_only_plain_trans)
                  then have "issued_only_plain st ?st5" by (rule logger_after)
                  moreover have "issued_only_plain ?st5
                      (snd (submit_order E acct od resolved ?st5))"
                    by (rule submit_order_plain)
                  ultimately have "issued_only_plain st
                      (snd (submit_order E acct od resolved ?st5))"
                    by (rule issued_only_plain_trans)
                  with PDict en Inr u \<open>b\<close> nu r ur \<open>\<not> b2\<close> ts show ?thesis
                    by (simp add: process_order_def Let_def)
                qed
              qed
            qed
          qed
        qed
      qed
    qed
  qed
qed (simp_all add: process_order_def)

lemma run_orders_plain:
  "issued_only_plain st (snd (run_orders E acct orders st results))"
proof (induction orders arbitrary: st results)
  case Nil
  then show ?case by simp
next
  case (Cons order rest)
  obtain r st1 where p: "process_order E acct order st = (r, st1)"
    by (cases "process_order E acct order st")
  have s1: "issued_only_plain st st1"
    using process_order_plain [of st E acct order] p by simp
  show ?case
  proof (cases r)
    case (Inl e)
    with p s1 show ?thesis by simp
  next
    case (Inr v)
    show ?thesis
    proof (cases v)
      case None
      have "issued_only_plain st1 (snd (run_orders E acct rest st1 results))"
        by (rule Cons.IH)
      with s1 have "issued_only_plain st (snd (run_orders E acct rest st1 results))"
        by (rule issued_only_plain_trans)
      with p Inr None show ?thesis by simp
    next
      case (Some x)
      have "issued_only_plain st1 (snd (run_orders E acct rest st1 (results @ [x])))"
        by (rule Cons.IH)
      with s1 have "issued_only_plain st (snd (run_orders E acct rest st1 (results @ [x])))"
        by (rule issued_only_plain_trans)
      with p Inr Some show ?thesis by simp
    qed
  qed
qed

lemma execute_on_single_account_plain:
  "issued_only_plain st (snd (execute_on_single_account E acct order_config st))"
proof -
  let ?st0 = "logger INFO (''Starting execution for '' @ acct) st"
  let ?st1 = "logger INFO (''Processing '' @ py_str E (PNum (real (length order_config))) @
                             '' orders for '' @ acct) ?st0"
  obtain r st2 where p: "run_orders E acct order_config ?st1 [] = (r, st2)"
    by (cases "run_orders E acct order_config ?st1 []")
  have "issued_only_plain ?st1 st2"
    using run_orders_plain [of ?st1 E acct order_config "[]"] p by simp
  then have "issued_only_plain ?st0 st2" by (rule logger_before)
  then have "issued_only_plain st st2" by (rule logger_before)
  with p show ?thesis
    by (cases r) (simp_all add: execute_on_single_account_def Let_def)
qed

subsection \<open>Instrument keys with an underscore\<close>

lemma execute_on_single_account_loop:
  "execute_on_single_account E acct order_config st =
     task_outcome (run_orders E acct order_config (task_start E acct order_config st) [])"
  by (simp add: execute_on_single_account_def task_outcome_def task_start_def Let_def)

lemma run_orders_append:
  "run_orders E acct (pre @ rest) st results =
     (case run_orders E acct pre st results of
        (Inl e, st1) \<Rightarrow> (Inl e, st1)
      | (Inr results1, st1) \<Rightarrow> run_orders E acct rest st1 results1)"
  by (induction pre arbitrary: st results) (auto split: prod.splits sum.splits option.splits)

lemma logger_instruments [simp]: "instruments (logger lv m st) = instruments st"
  by (simp add: logger_def)

lemma logger_resolver_instruments [simp]:
  "resolver_instruments (logger lv m st) = resolver_instruments st"
  by (simp add: logger_def)

lemma resolve_equity_tables:
  "resolve_equity E ex smb st = (r, st1) \<Longrightarrow>
     instruments st1 = instruments st \<and> resolver_instruments st1 = resolver_instruments st"
  by (auto simp: resolve_equity_def resolve_with_def issue_def split: option.splits sum.splits)

lemma place_order_instruments:
  "instruments (snd (place_order E a st)) = instruments st"
  by (auto simp: place_order_def issue_def split: sum.splits)

lemma submit_order_instruments:
  "instruments (snd (submit_order E acct od inst st)) = instruments st"
  by (auto simp: submit_order_def Let_def place_order_instruments split: sum.splits prod.splits
      dest: arg_cong [where f = "\<lambda>p. instruments (snd p)"])

lemma table_set_instruments:
  "table_set st key v = Inr st1 \<Longrightarrow> k \<noteq> key \<Longrightarrow> instruments st1 k = instruments st k"
  by (auto simp: table_set_def split: table_ref.splits)

lemma table_set_table_get:
  "table_set st key v = Inr st1 \<Longrightarrow> k \<noteq> key \<Longrightarrow> table_get st1 k = table_get st k"
  by (auto simp: table_set_def table_get_def shared_get_def split: table_ref.splits)

lemma process_order_instruments:
  assumes "CHR ''_'' \<in> set k"
  shows "instruments (snd (process_order E acct order st)) k = instruments st k"
proof (cases order)
  case (PDict od)
  show ?thesis
  proof (cases "dict_index od ''instrument''")
    case (Inl e)
    with PDict show ?thesis by (simp add: process_order_def)
  next
    case (Inr iv)
    let ?key = "instrument_key E iv"
    show ?thesis
    proof (cases "CHR ''_'' \<in> set ?key")
      case True
      with PDict Inr show ?thesis
        by (simp add: process_order_def Let_def submit_order_instruments
              split: sum.splits bool.splits)
    next
      case nu: False
      then have ne: "k \<noteq> ?key" using assms by auto
      let ?st1 = "logger INFO (''Dynamic resolution attempt: '' @ ?key) st"
      obtain resolved st2 where r: "resolve_equity E ''NSE'' ?key ?st1 = (resolved, st2)"
        by (cases "resolve_equity E ''NSE'' ?key ?st1")
      have i2: "instruments st2 k = instruments st k"
        using resolve_equity_tables [OF r] by simp
      let ?st3 = "st2\<lparr>instruments := (instruments st2)(?key \<mapsto> resolved)\<rparr>"
      have i3: "instruments ?st3 k = instruments st k" using i2 ne by simp
      have i4: "\<And>st4. table_set ?st3 ?key resolved = Inr st4 \<Longrightarrow>
                  instruments st4 k = instruments st k"
        using table_set_instruments [OF _ ne] i3 by metis
      show ?thesis
        using PDict Inr nu r i2 i3 i4
        by (auto simp: process_order_def Let_def submit_order_instruments
              split: sum.splits bool.splits)
    qed
  qed
qed (simp_all add: process_order_def)

lemma run_orders_instruments:
  "CHR ''_'' \<in> set k \<Longrightarrow>
     instruments (snd (run_orders E acct orders st results)) k = instruments st k"
proof (induction orders arbitrary: st results)
  case Nil
  then show ?case by simp
next
  case (Cons order rest)
  obtain r st1 where p: "process_order E acct order st = (r, st1)"
    by (cases "process_order E acct order st")
  have s1: "instruments st1 k = instruments st k"
    using process_order_instruments [OF Cons.prems, of E acct order st] p by simp
  show ?case
    using p s1 Cons.IH [OF Cons.prems, of st1]
    by (auto split: sum.splits option.splits)
qed

lemma build_order_dict_table_get:
  assumes "CHR ''_'' \<in> set k"
  shows "table_get (snd (build_order_dict E leg st)) k = table_get st k"
proof (cases leg)
  case (PDict od)
  show ?thesis
  proof (cases "dict_index od ''instrument''")
    case (Inl e)
    with PDict show ?thesis by (simp add: build_order_dict_def)
  next
    case (Inr iv)
    let ?key = "instrument_key E iv"
    show ?thesis
    proof (cases "CHR ''_'' \<in> set ?key")
      case True
      with PDict Inr show ?thesis
        by (simp add: build_order_dict_def Let_def split: sum.splits bool.splits)
    next
      case nu: False
      then have ne: "k \<noteq> ?key" using assms by auto
      obtain resolved st1 where r: "resolve_equity E ''NSE'' ?key st = (resolved, st1)"
        by (cases "resolve_equity E ''NSE'' ?key st")
      have t1: "table_get st1 k = table_get st k"
        using resolve_equity_tables [OF r]
        by (auto simp: table_get_def shared_get_def split: table_ref.splits)
      have t2: "\<And>st2. table_set st1 ?key resolved = Inr st2 \<Longrightarrow>
                  table_get st2 k = table_get st k"
        using table_set_table_get [OF _ ne] t1 by metis
      show ?thesis
        using PDict Inr nu r t1 t2
        by (auto simp: build_order_dict_def Let_def split: sum.splits bool.splits)
    qed
  qed
qed (simp_all add: build_order_dict_def)

lemma build_legs_table_get:
  "CHR ''_'' \<in> set k \<Longrightarrow> table_get (snd (build_legs E legs st)) k = table_get st k"
proof (induction legs arbitrary: st)
  case Nil
  then show ?case by simp
next
  case (Cons leg rest)
  obtain r st1 where b: "build_order_dict E leg st = (r, st1)"
    by (cases "build_order_dict E leg st")
  have t1: "table_get st1 k = table_get st k"
    using build_order_dict_table_get [OF Cons.prems, of E leg st] b by simp
  show ?case
    using b t1 Cons.IH [OF Cons.prems, of st1]
    by (auto split: sum.splits prod.splits)
qed

lemma build_order_dict_plain: "issued_only_plain st (snd (build_order_dict E leg st))"
proof (cases leg)
  case (PDict od)
  show ?thesis
  proof (cases "dict_index od ''instrument''")
    case (Inl e)
    with PDict show ?thesis by (simp add: build_order_dict_def)
  next
    case (Inr iv)
    let ?key = "instrument_key E iv"
    show ?thesis
    proof (cases "CHR ''_'' \<in> set ?key")
      case True
      with PDict Inr show ?thesis
        by (simp add: build_order_dict_def Let_def split: sum.splits bool.splits)
    next
      case nu: False
      obtain resolved st1 where r: "resolve_equity E ''NSE'' ?key st = (resolved, st1)"
        by (cases "resolve_equity E ''NSE'' ?key st")
      have s1: "issued_only_plain st st1"
        using resolve_equity_plain [OF nu, of st E "''NSE''"] r by simp
      have s2: "\<And>st2. table_set st1 ?key resolved = Inr st2 \<Longrightarrow> issued_only_plain st st2"
        using s1 table_set_plain issued_only_plain_trans by blast
      show ?thesis
        using PDict Inr nu r s1 s2
        by (auto simp: build_order_dict_def Let_def split: sum.splits bool.splits)
    qed
  qed
qed (simp_all add: build_order_dict_def)

lemma build_legs_plain: "issued_only_plain st (snd (build_legs E legs st))"
proof (induction legs arbitrary: st)
  case Nil
  then show ?case by simp
next
  case (Cons leg rest)
  obtain r st1 where b: "build_order_dict E leg st = (r, st1)"
    by (cases "build_order_dict E leg st")
  have s1: "issued_only_plain st st1"
    using build_order_dict_plain [of st E leg] b by simp
  have s2: "issued_only_plain st (snd (build_legs E rest st1))"
    using s1 Cons.IH [of st1] by (rule issued_only_plain_trans)
  show ?case
    using b s1 s2 by (auto split: sum.splits prod.splits)
qed

lemma issue_basket_plain:
  "issued_only_plain st (snd (issue E (PlaceBasketOrder b) st))"
  by (simp add: issue_def issued_only_plain_def)

lemma execute_basket_plain: "issued_only_plain st (snd (execute_basket E basket st))"
proof (cases basket)
  case (PDict cfg)
  show ?thesis
  proof (cases "iter_items (dict_get_default cfg ''orders'' (PList []))")
    case (Inl e)
    with PDict show ?thesis by (simp add: execute_basket_def Let_def)
  next
    case (Inr legs)
    obtain r st1 where l: "build_legs E legs st = (r, st1)"
      by (cases "build_legs E legs st")
    have s1: "issued_only_plain st st1"
      using build_legs_plain [of st E legs] l by simp
    have s2: "\<And>b r2 st2. issue E (PlaceBasketOrder b) st1 = (r2, st2) \<Longrightarrow>
                issued_only_plain st st2"
    proof -
      fix b r2 st2 assume "issue E (PlaceBasketOrder b) st1 = (r2, st2)"
      then have "issued_only_plain st1 st2"
        using issue_basket_plain [of st1 E b] by simp
      with s1 show "issued_only_plain st st2" by (rule issued_only_plain_trans)
    qed
    show ?thesis
      using PDict Inr l s1 s2
      by (auto simp: execute_basket_def Let_def split: sum.splits prod.splits)
  qed
qed (simp_all add: execute_basket_def)

lemma iter_items_truthy: "iter_items v = Inr xs \<Longrightarrow> xs \<noteq> [] \<Longrightarrow> truthy v"
  by (cases v) (auto simp: iter_items_def)

text \<open>
  Claim C8. Take an order whose normalised instrument key holds an underscore.

  In the task of one account, let the key be absent from the instrument table handed to
  the task, or unresolved in it, and let the loop reach the order (the orders before it
  raised nothing that left the loop). Then the task is the loop over the remaining
  orders, started in the state the loop had reached plus one record of the task's
  logger, and with the results collected so far: nothing is looked up, nothing is
  submitted and nothing is appended for the order. The record is the warning
  \<open>Invalid F&O instrument <key>, skipping\<close>; for an order that is disabled as well it
  is the debug record \<open>Skipping disabled order: <name>\<close>, since the flag is tested first.

  In the basket executor (\<open>_build_order_dict\<close>), let the key be absent from the
  resolver's table, or unresolved in it, when \<open>execute_basket\<close> starts, and let the legs
  before that leg be built. Then no dynamic resolution is attempted either: the build of
  the leg raises ValueError in the state reached, and \<open>execute_basket\<close> returns the
  \<open>Order build failed\<close> result. There the leg is not skipped: no leg of the basket is
  submitted.

  On both paths, whatever the configuration, the lookups issued are equity lookups of
  symbols without an underscore: dynamic resolution is attempted for such keys only.
\<close>

theorem underscore_keys_are_skipped:
  assumes "map_of order_data ''instrument'' = Some iv"
    and "CHR ''_'' \<in> set (instrument_key E iv)"
  shows "(unresolved (shared_get st (instrument_key E iv)) = Inr True \<and>
          run_orders E acct pre (task_start E acct (pre @ PDict order_data # rest) st) [] =
            (Inr results, st') \<longrightarrow>
          execute_on_single_account E acct (pre @ PDict order_data # rest) st =
            task_outcome
              (run_orders E acct rest
                 (if truthy (dict_get_default order_data ''enabled'' (PBool True))
                  then logger WARNING
                         (''Invalid F&O instrument '' @ instrument_key E iv @ '', skipping'') st'
                  else logger DEBUG
                         (''Skipping disabled order: '' @ py_str E (dict_get order_data ''name''))
                         st')
                 results)) \<and>
         (table_get bst (instrument_key E iv) = Inr inst \<and> unresolved inst = Inr True \<and>
          truthy (dict_get_default cfg ''enabled'' (PBool True)) \<and>
          iter_items (dict_get_default cfg ''orders'' (PList [])) =
            Inr (legs @ PDict order_data # later) \<and>
          build_legs E legs bst = (Inr built, bst') \<longrightarrow>
          execute_basket E (PDict cfg) bst =
            (Inr (basket_failure
               (''Order build failed: Invalid F&O instrument: '' @ instrument_key E iv @
                ''. Must be pre-defined.'')), bst')) \<and>
         issued_only_plain s (snd (execute_on_single_account E acct order_config s)) \<and>
         issued_only_plain s (snd (execute_basket E basket s))"
proof -
  let ?key = "instrument_key E iv"
  let ?config = "pre @ PDict order_data # rest"
  let ?st2 = "if truthy (dict_get_default order_data ''enabled'' (PBool True))
              then logger WARNING (''Invalid F&O instrument '' @ ?key @ '', skipping'') st'
              else logger DEBUG
                     (''Skipping disabled order: '' @ py_str E (dict_get order_data ''name'')) st'"
  have task: "execute_on_single_account E acct ?config st =
                task_outcome (run_orders E acct rest ?st2 results)"
    if u: "unresolved (shared_get st ?key) = Inr True"
      and r: "run_orders E acct pre (task_start E acct ?config st) [] = (Inr results, st')"
  proof -
    have "instruments st' ?key = instruments (task_start E acct ?config st) ?key"
      using run_orders_instruments [OF assms(2), of E acct pre "task_start E acct ?config st" "[]"] r
      by simp
    then have "shared_get st' ?key = shared_get st ?key"
      by (simp add: shared_get_def task_start_def)
    with u have u1: "unresolved (shared_get st' ?key) = Inr True" by simp
    have p: "process_order E acct (PDict order_data) st' = (Inr None, ?st2)"
      using assms u1 by (simp add: process_order_def dict_index_def Let_def)
    have "run_orders E acct ?config (task_start E acct ?config st) [] =
            run_orders E acct rest ?st2 results"
      using r p by (simp add: run_orders_append)
    then show ?thesis by (simp add: execute_on_single_account_loop)
  qed
  have basket: "execute_basket E (PDict cfg) bst =
                  (Inr (basket_failure (''Order build failed: Invalid F&O instrument: '' @ ?key @
                     ''. Must be pre-defined.'')), bst')"
    if t: "table_get bst ?key = Inr inst" and u: "unresolved inst = Inr True"
      and en: "truthy (dict_get_default cfg ''enabled'' (PBool True))"
      and it: "iter_items (dict_get_default cfg ''orders'' (PList [])) =
                 Inr (legs @ PDict order_data # later)"
      and l: "build_legs E legs bst = (Inr built, bst')"
  proof -
    have "table_get bst' ?key = table_get bst ?key"
      using build_legs_table_get [OF assms(2), of E legs bst] l by simp
    with t have t1: "table_get bst' ?key = Inr inst" by simp
    have b: "build_order_dict E (PDict order_data) bst' =
               (Inl (Exn ValueError (''Invalid F&O instrument: '' @ ?key @
                  ''. Must be pre-defined.'')), bst')"
      using assms t1 u by (simp add: build_order_dict_def dict_index_def Let_def)
    have f: "build_legs E (legs @ PDict order_data # later) bst =
               (Inl (Exn ValueError (''Invalid F&O instrument: '' @ ?key @
                  ''. Must be pre-defined.'')), bst')"
      using l b by (rule build_legs_failed_leg)
    have tr: "truthy (dict_get_default cfg ''orders'' (PList []))"
      using it by (rule iter_items_truthy) simp
    show ?thesis
      using en tr it f by (simp add: execute_basket_def Let_def)
  qed
  show ?thesis
    using task basket
    by (simp add: execute_on_single_account_plain execute_basket_plain)
qed

lemma key_option_plain:
  "instrument_key infy_env (PStr ''NIFTY_DEC30_CE_26000'') = ''NIFTY_DEC30_CE_26000''"
  by (simp add: instrument_key_def infy_env_def plain_env_def plain_str_def
        ascii_strip_def ascii_upper_def is_space_def)

lemma key_infy_plain: "instrument_key infy_env (PStr ''INFY'') = ''INFY''"
  by (simp add: instrument_key_def infy_env_def plain_env_def plain_str_def
        ascii_strip_def ascii_upper_def is_space_def)

lemma infy_env_fields:
  "py_str infy_env = plain_str" "enum_member infy_env = every_member"
  "remote infy_env = knows_infy"
  by (simp_all add: infy_env_def plain_env_def)

lemma process_order_leg_infy:
  "process_order infy_env ''A'' leg_infy (seeded_state\<lparr>calls := cs, log := lg\<rparr>) =
     (Inr (Some placed_infy),
      seeded_state\<lparr>calls := cs @ [infy_call],
                   log := lg @ [Log INFO ''Executing: leg1 on A'']\<rparr>)"
  by (simp add: process_order_def leg_infy_def dict_get_default_def dict_get_def dict_index_def
        key_infy_plain shared_get_def seeded_state_def new_state_def unresolved_def infy_def
        submit_order_def order_args_of_def bind_exn_def logger_def place_order_def hasattr_def
        enum_lookup_def infy_env_fields every_member_def issue_def knows_infy_def
        order_params_def process_response_def plain_str_def infy_call_def placed_infy_def
        Let_def)

theorem underscore_keys_are_skipped_witness:
  "map_of option_order ''instrument'' = Some (PStr ''NIFTY_DEC30_CE_26000'') \<and>
   CHR ''_'' \<in> set (instrument_key infy_env (PStr ''NIFTY_DEC30_CE_26000'')) \<and>
   unresolved (shared_get seeded_state (instrument_key infy_env (PStr ''NIFTY_DEC30_CE_26000'')))
     = Inr True \<and>
   run_orders infy_env ''A'' [leg_infy]
     (task_start infy_env ''A'' [leg_infy, leg_option, leg_infy] seeded_state) [] =
     (Inr [placed_infy],
      seeded_state\<lparr>calls := [infy_call],
                   log := [Log INFO ''Starting execution for A'',
                           Log INFO ''Processing <value> orders for A'',
                           Log INFO ''Executing: leg1 on A'']\<rparr>) \<and>
   execute_on_single_account infy_env ''A'' [leg_infy, leg_option, leg_infy] seeded_state =
     (Inr (PDict [(''individual_orders'', PList [placed_infy, placed_infy]),
                  (''basket_orders'', PList [])]),
      seeded_state\<lparr>calls := [infy_call, infy_call],
                   log := [Log INFO ''Starting execution for A'',
                           Log INFO ''Processing <value> orders for A'',
                           Log INFO ''Executing: leg1 on A'',
                           Log WARNING ''Invalid F&O instrument NIFTY_DEC30_CE_26000, skipping'',
                           Log INFO ''Executing: leg1 on A'']\<rparr>) \<and>
   table_get seeded_state (instrument_key infy_env (PStr ''NIFTY_DEC30_CE_26000'')) = Inr PNone \<and>
   unresolved PNone = Inr True \<and>
   truthy (dict_get_default three_leg_basket ''enabled'' (PBool True)) \<and>
   iter_items (dict_get_default three_leg_basket ''orders'' (PList [])) =
     Inr [leg_infy, leg_option, leg_infy] \<and>
   build_legs infy_env [leg_infy] seeded_state = (Inr [built_infy], seeded_state) \<and>
   execute_basket infy_env (PDict three_leg_basket) seeded_state =
     (Inr (basket_failure
        ''Order build failed: Invalid F&O instrument: NIFTY_DEC30_CE_26000. Must be pre-defined.''),
      seeded_state) \<and>
   issued_only_plain seeded_state
     (snd (execute_on_single_account infy_env ''A'' [leg_infy, leg_option, leg_infy] seeded_state)) \<and>
   issued_only_plain seeded_state
     (snd (execute_basket infy_env (PDict three_leg_basket) seeded_state))"
proof -
  let ?key = "instrument_key infy_env (PStr ''NIFTY_DEC30_CE_26000'')"
  let ?st1 = "seeded_state\<lparr>calls := [infy_call],
                log := [Log INFO ''Starting execution for A'',
                        Log INFO ''Processing <value> orders for A'',
                        Log INFO ''Executing: leg1 on A'']\<rparr>"
  have h1: "map_of option_order ''instrument'' = Some (PStr ''NIFTY_DEC30_CE_26000'')"
    by (simp add: option_order_def)
  have h2: "CHR ''_'' \<in> set ?key"
    by (simp add: key_option_plain)
  have h3: "unresolved (shared_get seeded_state ?key) = Inr True"
    by (simp add: key_option_plain shared_get_def seeded_state_def new_state_def unresolved_def)
  have ts: "task_start infy_env ''A'' [leg_infy, leg_option, leg_infy] seeded_state =
      seeded_state\<lparr>calls := [],
        log := [Log INFO ''Starting execution for A'',
                Log INFO ''Processing <value> orders for A'']\<rparr>"
    by (simp add: task_start_def logger_def seeded_state_def new_state_def infy_env_fields
          plain_str_def)
  have h4: "run_orders infy_env ''A'' [leg_infy]
      (task_start infy_env ''A'' [leg_infy, leg_option, leg_infy] seeded_state) [] =
      (Inr [placed_infy], ?st1)"
    by (simp add: ts process_order_leg_infy)
  have en: "truthy (dict_get_default option_order ''enabled'' (PBool True))"
    by (simp add: option_order_def dict_get_default_def)
  have cont: "run_orders infy_env ''A'' [leg_infy]
      (logger WARNING (''Invalid F&O instrument '' @ ?key @ '', skipping'') ?st1) [placed_infy] =
      (Inr [placed_infy, placed_infy],
       seeded_state\<lparr>calls := [infy_call, infy_call],
         log := [Log INFO ''Starting execution for A'',
                 Log INFO ''Processing <value> orders for A'',
                 Log INFO ''Executing: leg1 on A'',
                 Log WARNING ''Invalid F&O instrument NIFTY_DEC30_CE_26000, skipping'',
                 Log INFO ''Executing: leg1 on A'']\<rparr>)"
    by (simp add: key_option_plain logger_def process_order_leg_infy)
  have b1: "table_get seeded_state ?key = Inr PNone"
    by (simp add: key_option_plain table_get_def shared_get_def seeded_state_def new_state_def)
  have b2: "unresolved PNone = Inr True"
    by (simp add: unresolved_def)
  have b3: "truthy (dict_get_default three_leg_basket ''enabled'' (PBool True))"
    by (simp add: three_leg_basket_def dict_get_default_def)
  have b4: "iter_items (dict_get_default three_leg_basket ''orders'' (PList [])) =
      Inr [leg_infy, leg_option, leg_infy]"
    by (simp add: three_leg_basket_def dict_get_default_def iter_items_def)
  have t: "table_get seeded_state ''INFY'' = Inr infy"
    by (simp add: table_get_def shared_get_def seeded_state_def new_state_def)
  have u: "unresolved infy = Inr False"
    by (simp add: unresolved_def infy_def)
  have fin: "finish_order_dict infy_env
      [(''name'', PStr ''leg1''), (''instrument'', PStr ''INFY''),
       (''transaction_type'', PStr ''Buy''), (''quantity'', PNum 1),
       (''order_type'', PStr ''Market''), (''product_type'', PStr ''Intraday'')] infy = Inr built_infy"
    by (simp add: finish_order_dict_def bind_exn_def dict_index_def enum_lookup_def
          infy_env_fields every_member_def greater_zero_def dict_get_default_def
          dict_get_def built_infy_def Let_def)
  have b5: "build_legs infy_env [leg_infy] seeded_state = (Inr [built_infy], seeded_state)"
    by (simp add: build_order_dict_def leg_infy_def dict_index_def key_infy_plain t u fin)
  note at_input = underscore_keys_are_skipped [OF h1 h2,
      where st = seeded_state and acct = "''A''" and pre = "[leg_infy]" and rest = "[leg_infy]"
        and results = "[placed_infy]" and st' = ?st1
        and bst = seeded_state and inst = PNone and cfg = three_leg_basket
        and legs = "[leg_infy]" and later = "[leg_infy]" and built = "[built_infy]"
        and bst' = seeded_state and s = seeded_state
        and order_config = "[leg_infy, leg_option, leg_infy]"
        and basket = "PDict three_leg_basket"]
  have l3: "[leg_infy] @ PDict option_order # [leg_infy] = [leg_infy, leg_option, leg_infy]"
    by (simp add: leg_option_def)
  have e1: "execute_on_single_account infy_env ''A'' [leg_infy, leg_option, leg_infy] seeded_state =
      task_outcome (run_orders infy_env ''A'' [leg_infy]
        (logger WARNING (''Invalid F&O instrument '' @ ?key @ '', skipping'') ?st1) [placed_infy])"
    using at_input h3 h4 en unfolding l3 by (simp del: run_orders.simps)
  have e2: "execute_on_single_account infy_env ''A'' [leg_infy, leg_option, leg_infy] seeded_state =
      (Inr (PDict [(''individual_orders'', PList [placed_infy, placed_infy]),
                   (''basket_orders'', PList [])]),
       seeded_state\<lparr>calls := [infy_call, infy_call],
         log := [Log INFO ''Starting execution for A'',
                 Log INFO ''Processing <value> orders for A'',
                 Log INFO ''Executing: leg1 on A'',
                 Log WARNING ''Invalid F&O instrument NIFTY_DEC30_CE_26000, skipping'',
                 Log INFO ''Executing: leg1 on A'']\<rparr>)"
    unfolding e1 cont by (simp add: task_outcome_def)
  have e3: "execute_basket infy_env (PDict three_leg_basket) seeded_state =
      (Inr (basket_failure
        ''Order build failed: Invalid F&O instrument: NIFTY_DEC30_CE_26000. Must be pre-defined.''),
       seeded_state)"
    using at_input b1 b2 b3 b4 b5 unfolding l3 by (simp add: key_option_plain del: build_legs.simps)
  have p1: "issued_only_plain seeded_state
      (snd (execute_on_single_account infy_env ''A'' [leg_infy, leg_option, leg_infy] seeded_state))"
    using at_input by blast
  have p2: "issued_only_plain seeded_state
      (snd (execute_basket infy_env (PDict three_leg_basket) seeded_state))"
    using at_input by blast
  show ?thesis
    using h1 h2 h3 h4 e2 b1 b2 b3 b4 b5 e3 p1 p2 by blast
qed

subsection \<open>Tagging the legs of a basket\<close>

lemma tag_orders_other: "a \<notin> set refs \<Longrightarrow> tag_orders E acct refs s a = s a"
  by (induction refs arbitrary: s) (auto simp: Let_def)

lemma tag_orders_leg:
  "distinct refs \<Longrightarrow> a \<in> set refs \<Longrightarrow>
   dict_get (tag_orders E acct refs s a) ''order_tag'' =
     PStr (acct @ ''_'' @ py_str E (dict_get_default (s a) ''order_tag'' (PStr [])))"
proof (induction refs arbitrary: s)
  case Nil
  then show ?case by simp
next
  case (Cons r refs)
  show ?case
  proof (cases "a = r")
    case True
    with Cons.prems have "a \<notin> set refs" by simp
    then show ?thesis using True by (simp add: Let_def tag_orders_other)
  next
    case False
    with Cons.prems have "distinct refs" "a \<in> set refs" by simp_all
    from Cons.IH [OF this] False show ?thesis by (simp add: Let_def)
  qed
qed

text \<open>
  Claim C9 says that \<open>_tag_basket_orders\<close> returns a basket whose legs carry the tag
  \<open>account_name + "_" + original tag\<close> and leaves the input basket unchanged. The copy
  it makes is shallow: the legs of the copy are the legs of the input, so the input's
  legs carry the new tag after the call (lemma \<open>tag_orders_leg\<close>). For the basket B1
  with one leg tagged T1: the call for account A returns the basket with the leg tagged
  A_T1, and the input basket now reads A_T1 as well; a second call on the same input,
  for account B, yields B_A_T1 and not B_T1.
\<close>

theorem tag_basket_orders_changes_input:
  "view store_b1 basket_b1 =
     PDict [(''name'', PStr ''B1''),
            (''orders'', PList [PDict [(''instrument'', PStr ''INFY''), (''order_tag'', PStr ''T1'')]])] \<and>
   fst (tag_basket_orders plain_env basket_b1 ''A'' store_b1) = basket_b1 \<and>
   view (snd (tag_basket_orders plain_env basket_b1 ''A'' store_b1)) basket_b1 =
     PDict [(''name'', PStr ''B1''),
            (''orders'', PList [PDict [(''instrument'', PStr ''INFY''), (''order_tag'', PStr ''A_T1'')]])] \<and>
   view (snd (tag_basket_orders plain_env basket_b1 ''B''
                (snd (tag_basket_orders plain_env basket_b1 ''A'' store_b1))))
        (fst (tag_basket_orders plain_env basket_b1 ''B''
                (snd (tag_basket_orders plain_env basket_b1 ''A'' store_b1)))) =
     PDict [(''name'', PStr ''B1''),
            (''orders'', PList [PDict [(''instrument'', PStr ''INFY''), (''order_tag'', PStr ''B_A_T1'')]])]"
  by (simp add: view_def tag_basket_orders_def basket_b1_def store_b1_def empty_store_def
        Let_def dict_get_default_def plain_env_def plain_str_def)

end
